theory Spec2Isabelle
  imports Complex_Main "HOL-Library.Word"
begin

section \<open>CleanupPreviousUpdateAction: the merge orchestrator of update_engine\<close>

text \<open>
  A shallow embedding of \<^verbatim>\<open>aosp/cleanup_previous_update_action.cc\<close>. The action is a
  single-threaded state machine driven by a message loop; every member function becomes a
  function on the record of the action's members. Whatever the action does to the outside
  (a call on the snapshot manager, the boot control, the preferences, the statistics
  recorder, the message loop, the action processor) is written to a trace, in program
  order, and whatever the outside answers is a function of the trace so far. A theorem
  that holds for every such answer function holds for every behaviour of the
  collaborators.

  Member names lose their trailing underscore (\<^verbatim>\<open>running_\<close> is \<open>running\<close>). Log lines are
  not effects of the model, except the progress line of \<^verbatim>\<open>OnMergePercentageUpdate\<close> and
  \<^verbatim>\<open>LOG(FATAL)\<close>, which ends the process.
\<close>

subsection \<open>Data\<close>

text \<open>\<^verbatim>\<open>android::snapshot::UpdateState\<close>: the eight members the switch of
  \<^verbatim>\<open>WaitForMergeOrSchedule\<close> names, and any other numeric value of the enumeration
  (the reserved values its \<^verbatim>\<open>default\<close> label is there for).\<close>

datatype UpdateState =
    None_UpdateState
  | Initiated
  | Unverified
  | Merging
  | MergeNeedsReboot
  | MergeCompleted
  | MergeFailed
  | Cancelled
  | Unrecognized int

datatype ErrorCode = kSuccess | kError | kDeviceCorrupted

datatype MergeFailureCode = Ok | OtherFailureCode int

datatype CreateResult = ERROR | CREATED | NOT_CREATED | OtherCreateResult int

text \<open>Slot numbers are unsigned machine integers: \<^verbatim>\<open>1 - GetCurrentSlot()\<close> wraps.\<close>

type_synonym Slot = "32 word"

text \<open>The four member functions that are posted to the message loop.\<close>

datatype task =
    Task_WaitBootCompletedOrSchedule
  | Task_CheckSlotMarkedSuccessfulOrSchedule
  | Task_StartMerge
  | Task_WaitForMergeOrSchedule

text \<open>What \<^verbatim>\<open>merge_stats_->Finish()\<close> hands back: the report fields that
  \<^verbatim>\<open>ReportMergeStats\<close> reads, and the merge time in milliseconds.\<close>

record Result =
  report_state :: UpdateState
  report_resume_count :: int
  report_cow_file_size :: int
  report_compression_enabled :: bool
  report_total_cow_size_bytes :: int
  report_estimated_cow_size_bytes :: int
  report_boot_complete_time_ms :: int
  report_boot_complete_to_merge_start_time_ms :: int
  report_merge_failure_code :: MergeFailureCode
  report_source_build_fingerprint :: string
  report_userspace_snapshots_used :: bool
  report_xor_compression_used :: bool
  report_iouring_used :: bool
  merge_time :: int

text \<open>
  The trace: one event for every call that leaves the action, named after the object and
  the method, with the arguments the action passes. Two further events record what a
  callback hands back to the snapshot manager, and one the progress log line.
  \<open>statsd_stats_write\<close> carries the \<open>Result\<close> whose fields make up most of its arguments,
  followed by the five values \<^verbatim>\<open>ReportMergeStats\<close> computes itself.
\<close>

datatype event =
    processor_ActionComplete ErrorCode
  | scheduled_task_PostTask task nat
  | scheduled_task_Cancel
  | GetBoolProperty string bool
  | GetIntProperty string int
  | GetProperty string string
  | boot_clock_now
  | boot_control_VirtualAbFeatureFlag_IsEnabled
  | boot_control_VirtualAbFeatureFlag_IsRetrofit
  | boot_control_VirtualAbCompressionFeatureFlag_IsEnabled
  | boot_control_VirtualAbUserspaceSnapshotsFeatureFlag_IsEnabled
  | boot_control_VirtualAbCompressionXorFeatureFlag_IsEnabled
  | boot_control_GetCurrentSlot
  | boot_control_IsSlotMarkedSuccessful Slot
  | boot_control_MarkSlotUnbootable Slot
  | snapshot_GetSnapshotMergeStatsInstance
  | snapshot_IsSnapshotManagerNeeded
  | snapshot_EnsureMetadataMounted
  | snapshot_RecoveryCreateSnapshotDevices
  | snapshot_SetMergeStatsFeatures
  | snapshot_ReadMergeFailureCode
  | snapshot_ProcessUpdateState
  | snapshot_CancelUpdate
  | snapshot_GetUpdateState
  | snapshot_UpdateCowStats
  | snapshot_ReadSourceBuildFingerprint
  | snapshot_InitiateMerge
  | merge_stats_set_boot_complete_time_ms int
  | merge_stats_Start
  | merge_stats_set_state UpdateState
  | merge_stats_set_merge_failure_code MergeFailureCode
  | merge_stats_set_boot_complete_to_merge_start_time_ms int
  | merge_stats_boot_complete_time_ms
  | merge_stats_set_source_build_fingerprint string
  | merge_stats_WriteState
  | merge_stats_Finish
  | DeltaPerformer_ResetUpdateProgress bool bool
  | prefs_GetString string
  | delegate_OnCleanupProgressUpdate real
  | statsd_stats_write Result bool bool bool bool string
  | OnMergePercentageUpdate_returns bool
  | BeforeCancel_returns bool
  | LOG_Waiting_for_merge_to_complete nat

type_synonym history = "event list"

text \<open>
  Modelled from the spec: \<^verbatim>\<open>ISnapshotManager::ProcessUpdateState\<close>, which is not in this
  file. It takes the two callbacks and may run either of them any number of times before
  it returns a state; what it does next may depend on what a callback returned.
\<close>

datatype process =
    Return UpdateState
  | Calls_OnMergePercentageUpdate "bool \<Rightarrow> process"
  | Calls_BeforeCancel "bool \<Rightarrow> process"

text \<open>
  The outside: the two compile-time switches (\<^verbatim>\<open>__ANDROID_RECOVERY__\<close>, which fixes
  \<^verbatim>\<open>kIsRecovery\<close>, and \<^verbatim>\<open>UE_DISABLE_STATS\<close>) and, for every result type, the value the
  call at the end of a history returns. A \<^verbatim>\<open>double\<close> is given by the real number it
  denotes.
\<close>

record env =
  kIsRecovery :: bool
  UE_DISABLE_STATS :: bool
  returns_bool :: "history \<Rightarrow> bool"
  returns_int :: "history \<Rightarrow> int"
  returns_string :: "history \<Rightarrow> string"
  returns_double :: "history \<Rightarrow> real"
  returns_Slot :: "history \<Rightarrow> Slot"
  returns_UpdateState :: "history \<Rightarrow> UpdateState"
  returns_MergeFailureCode :: "history \<Rightarrow> MergeFailureCode"
  returns_CreateResult :: "history \<Rightarrow> CreateResult"
  returns_Result :: "history \<Rightarrow> Result option"
  returns_process :: "history \<Rightarrow> process"

text \<open>
  The members of the action. A pointer is the flag "not null"; \<open>scheduled_task\<close> is the
  task the handle tracks, if any. The trace is kept beside the members.
\<close>

record action =
  prefs :: bool
  boot_control :: bool
  snapshot :: bool
  delegate :: bool
  running :: bool
  cancel_failed :: bool
  last_percentage :: nat
  merge_stats :: bool
  metadata_device :: bool
  scheduled_task :: "task option"
  trace :: history

text \<open>The constructor.\<close>

definition CleanupPreviousUpdateAction :: "bool \<Rightarrow> bool \<Rightarrow> bool \<Rightarrow> bool \<Rightarrow> action" where
  "CleanupPreviousUpdateAction prefs0 boot_control0 snapshot0 delegate0 =
     \<lparr>prefs = prefs0, boot_control = boot_control0, snapshot = snapshot0,
      delegate = delegate0, running = False, cancel_failed = False, last_percentage = 0,
      merge_stats = False, metadata_device = False, scheduled_task = None, trace = []\<rparr>"

text \<open>The ways the process ends inside the action, and the result of a member
  function: the action as it returns, or the reason of the abort with the action (and so
  the trace) at that moment. A function that takes fuel returns \<open>None\<close> when the fuel is
  used up.\<close>

datatype fatal = LOG_FATAL UpdateState | CHECK_failed string | Null_dereference string

type_synonym outcome = "(fatal \<times> action) + action"

fun final :: "outcome \<Rightarrow> action" where
  "final (Inl (f, m)) = m"
| "final (Inr m) = m"

subsection \<open>Constants\<close>

definition kBootCompletedProp :: string where
  "kBootCompletedProp = ''sys.boot_completed''"

definition kMergeDelaySecondsProp :: string where
  "kMergeDelaySecondsProp = ''ro.virtual_ab.merge_delay_seconds''"

definition kMaxMergeDelaySeconds :: int where
  "kMaxMergeDelaySeconds = 600"

definition kCheckBootCompletedInterval :: nat where
  "kCheckBootCompletedInterval = 2"

definition kCheckSlotMarkedSuccessfulInterval :: nat where
  "kCheckSlotMarkedSuccessfulInterval = 2"

definition kWaitForMergeInterval :: nat where
  "kWaitForMergeInterval = 2"

text \<open>The preference key is declared outside this file; only its name is used.\<close>

definition kPrefsDynamicPartitionMetadataUpdated :: string where
  "kPrefsDynamicPartitionMetadataUpdated = ''dynamic-partition-metadata-updated''"

subsection \<open>Calls\<close>

definition emit :: "event \<Rightarrow> action \<Rightarrow> action" where
  "emit e m = m\<lparr>trace := trace m @ [e]\<rparr>"

definition ask_bool :: "env \<Rightarrow> event \<Rightarrow> action \<Rightarrow> bool \<times> action" where
  "ask_bool sv e m = (returns_bool sv (trace m @ [e]), emit e m)"

definition ask_int :: "env \<Rightarrow> event \<Rightarrow> action \<Rightarrow> int \<times> action" where
  "ask_int sv e m = (returns_int sv (trace m @ [e]), emit e m)"

definition ask_string :: "env \<Rightarrow> event \<Rightarrow> action \<Rightarrow> string \<times> action" where
  "ask_string sv e m = (returns_string sv (trace m @ [e]), emit e m)"

definition ask_double :: "env \<Rightarrow> event \<Rightarrow> action \<Rightarrow> real \<times> action" where
  "ask_double sv e m = (returns_double sv (trace m @ [e]), emit e m)"

definition ask_Slot :: "env \<Rightarrow> event \<Rightarrow> action \<Rightarrow> Slot \<times> action" where
  "ask_Slot sv e m = (returns_Slot sv (trace m @ [e]), emit e m)"

definition ask_UpdateState :: "env \<Rightarrow> event \<Rightarrow> action \<Rightarrow> UpdateState \<times> action" where
  "ask_UpdateState sv e m = (returns_UpdateState sv (trace m @ [e]), emit e m)"

definition ask_MergeFailureCode ::
  "env \<Rightarrow> event \<Rightarrow> action \<Rightarrow> MergeFailureCode \<times> action" where
  "ask_MergeFailureCode sv e m = (returns_MergeFailureCode sv (trace m @ [e]), emit e m)"

definition ask_CreateResult :: "env \<Rightarrow> event \<Rightarrow> action \<Rightarrow> CreateResult \<times> action" where
  "ask_CreateResult sv e m = (returns_CreateResult sv (trace m @ [e]), emit e m)"

definition ask_Result :: "env \<Rightarrow> event \<Rightarrow> action \<Rightarrow> Result option \<times> action" where
  "ask_Result sv e m = (returns_Result sv (trace m @ [e]), emit e m)"

subsection \<open>The scheduled-task handle\<close>

text \<open>
  Modelled from the spec: the handle \<^verbatim>\<open>scheduled_task_\<close>, whose class is declared outside
  this file. Its contract: \<^verbatim>\<open>schedule(delay, callback) -> handle-or-failure\<close>,
  \<^verbatim>\<open>cancel(handle) -> success-or-failure\<close>, \<^verbatim>\<open>isScheduled() -> bool\<close>; one handle is live at
  most, and a new one takes the place of the one tracked before. Whether the message loop
  accepts a task, and whether it cancels one, is the outside's answer. A refused task
  leaves the tracking as it was. Cancellation is best effort: when it fails the tracking is
  cleared all the same. A task that fires clears the tracking before its callback runs.
\<close>

definition IsScheduled :: "action \<Rightarrow> bool" where
  "IsScheduled m = (scheduled_task m \<noteq> None)"

definition PostTask :: "env \<Rightarrow> task \<Rightarrow> nat \<Rightarrow> action \<Rightarrow> bool \<times> action" where
  "PostTask sv callback delay m =
     (let (posted, m) = ask_bool sv (scheduled_task_PostTask callback delay) m in
      if posted then (True, m\<lparr>scheduled_task := Some callback\<rparr>) else (False, m))"

definition Cancel :: "env \<Rightarrow> action \<Rightarrow> bool \<times> action" where
  "Cancel sv m =
     (if scheduled_task m \<noteq> None then
        (let (cancelled, m) = ask_bool sv scheduled_task_Cancel m in
         (cancelled, m\<lparr>scheduled_task := None\<rparr>))
      else (False, m))"

definition ExecuteTask :: "action \<Rightarrow> action" where
  "ExecuteTask m = m\<lparr>scheduled_task := None\<rparr>"

subsection \<open>Stopping and completing\<close>

definition StopActionInternal :: "env \<Rightarrow> action \<Rightarrow> action" where
  "StopActionInternal sv m =
     (let m = m\<lparr>running := False\<rparr> in
      if IsScheduled m then snd (Cancel sv m) else m)"

text \<open>
  \<^verbatim>\<open>ReportMergeStats\<close> calls \<^verbatim>\<open>merge_stats_->Finish()\<close> without a test of the pointer. It
  is defined here, and so are \<^verbatim>\<open>ActionCompleted\<close> and the completion of the action, for an
  instance that has its statistics recorder, which \<^verbatim>\<open>StartActionInternal\<close> obtains before
  any other member function can complete the action. The one completion that can come
  before that is written out in \<^verbatim>\<open>StartActionInternal\<close>.
\<close>

definition ReportMergeStats :: "env \<Rightarrow> action \<Rightarrow> action" where
  "ReportMergeStats sv m =
     (let (result, m) = ask_Result sv merge_stats_Finish m in
      case result of
        None \<Rightarrow> m
      | Some r \<Rightarrow>
          if kIsRecovery sv then m
          else if UE_DISABLE_STATS sv then m
          else if report_state r = None_UpdateState \<or> report_state r = Initiated \<or>
                  report_state r = Unverified then m
          else
            (let (vab_retrofit, m) =
                   ask_bool sv boot_control_VirtualAbFeatureFlag_IsRetrofit m;
                 (vab_compression_enabled, m) =
                   ask_bool sv boot_control_VirtualAbCompressionFeatureFlag_IsEnabled m;
                 (userspace_snapshots_enabled, m) =
                   ask_bool sv boot_control_VirtualAbUserspaceSnapshotsFeatureFlag_IsEnabled m;
                 (xor_compression_enabled, m) =
                   ask_bool sv boot_control_VirtualAbCompressionXorFeatureFlag_IsEnabled m;
                 (target_build_fingerprint, m) =
                   ask_string sv (GetProperty ''ro.build.fingerprint'' []) m
             in emit (statsd_stats_write r vab_retrofit vab_compression_enabled
                        userspace_snapshots_enabled xor_compression_enabled
                        target_build_fingerprint) m))"

definition ActionCompleted :: "env \<Rightarrow> ErrorCode \<Rightarrow> action \<Rightarrow> action" where
  "ActionCompleted sv error_code m =
     (let m = StopActionInternal sv m;
          m = ReportMergeStats sv m
      in m\<lparr>metadata_device := False\<rparr>)"

text \<open>
  Modelled from the spec: \<^verbatim>\<open>processor_->ActionComplete\<close>, the sequencer's side of a
  completion, which is not in this file. It receives the code, and the action reaches its
  terminal state: \<^verbatim>\<open>ActionCompleted\<close> runs (the metadata volume is released, the
  statistics are finalised and reported).
\<close>

definition ActionComplete :: "env \<Rightarrow> ErrorCode \<Rightarrow> action \<Rightarrow> action" where
  "ActionComplete sv code m = ActionCompleted sv code (emit (processor_ActionComplete code) m)"

text \<open>\<^verbatim>\<open>AcknowledgeTaskExecuted\<close> writes a log line when a task is tracked, nothing else.\<close>

definition AcknowledgeTaskExecuted :: "action \<Rightarrow> action" where
  "AcknowledgeTaskExecuted m = (if IsScheduled m then m else m)"

definition CheckTaskScheduled :: "env \<Rightarrow> string \<Rightarrow> action \<Rightarrow> action" where
  "CheckTaskScheduled sv name m =
     (if \<not> IsScheduled m then ActionComplete sv kError m else m)"

subsection \<open>The callbacks handed to ProcessUpdateState\<close>

text \<open>
  The arithmetic of \<^verbatim>\<open>double\<close>. \<open>binary64 x\<close> is the double nearest to the real \<open>x\<close>, a
  tie going to the even significand: \<open>x\<close> is cut to a whole number of units in the last
  place of its binade, 52 binary digits below its leading one, and not below \<open>2 ^ - 1074\<close>,
  the spacing of the subnormal numbers. (Overflow to infinity, from \<open>2 ^ 1024\<close> on, is not
  represented; no quotient below comes near it.) The quotient of two doubles is the real
  quotient rounded in this way.
\<close>

definition round_to_nearest_even :: "real \<Rightarrow> int" where
  "round_to_nearest_even y =
     (let f = \<lfloor>y\<rfloor>; d = y - of_int f
      in if d < 1 / 2 then f
         else if 1 / 2 < d then f + 1
         else if even f then f else f + 1)"

definition binary64 :: "real \<Rightarrow> real" where
  "binary64 x =
     (if x = 0 then 0
      else
        (let e = max \<lfloor>log 2 \<bar>x\<bar>\<rfloor> (- 1022);
             ulp = 2 powr (of_int e - 52)
         in sgn x * (ulp * of_int (round_to_nearest_even (\<bar>x\<bar> / ulp)))))"

definition double_div :: "real \<Rightarrow> real \<Rightarrow> real" where
  "double_div x y = binary64 (x / y)"

text \<open>
  \<^verbatim>\<open>static_cast<unsigned int>(percentage)\<close> drops the fraction. The conversion is defined
  for \<open>-1 < percentage < 2 ^ 32\<close>, which covers the \<open>[0, 100]\<close> that libsnapshot reports;
  the value the model gives outside that range stands for no behaviour of the program.
\<close>

definition static_cast_unsigned_int :: "real \<Rightarrow> nat" where
  "static_cast_unsigned_int percentage = nat \<lfloor>percentage\<rfloor>"

definition OnMergePercentageUpdate :: "env \<Rightarrow> action \<Rightarrow> bool \<times> action" where
  "OnMergePercentageUpdate sv m =
     (let (percentage, m) = ask_double sv snapshot_GetUpdateState m;
          m = (if delegate m
               then emit (delegate_OnCleanupProgressUpdate (double_div percentage 100)) m
               else m);
          m = (if last_percentage m < static_cast_unsigned_int percentage then
                 (let m = m\<lparr>last_percentage := static_cast_unsigned_int percentage\<rparr>
                  in emit (LOG_Waiting_for_merge_to_complete (last_percentage m)) m)
               else m)
      in (False, m))"

definition BeforeCancel :: "env \<Rightarrow> action \<Rightarrow> bool \<times> action" where
  "BeforeCancel sv m =
     (let (reset, m) = ask_bool sv (DeltaPerformer_ResetUpdateProgress False False) m in
      if reset then (True, m)
      else
        (let (val, m) = ask_string sv (prefs_GetString kPrefsDynamicPartitionMetadataUpdated) m in
         if val = [] then (True, m)
         else (False, m\<lparr>cancel_failed := True\<rparr>)))"

text \<open>
  Modelled from the spec: the call \<^verbatim>\<open>snapshot_->ProcessUpdateState(callback, before_cancel)\<close>.
  The snapshot manager runs the callbacks it chooses to run, is told what each returned,
  and returns a state.
\<close>

primrec run_process :: "env \<Rightarrow> process \<Rightarrow> action \<Rightarrow> UpdateState \<times> action" where
  "run_process sv (Return state) m = (state, m)"
| "run_process sv (Calls_OnMergePercentageUpdate k) m =
     (let (r, m) = OnMergePercentageUpdate sv m
      in run_process sv (k r) (emit (OnMergePercentageUpdate_returns r) m))"
| "run_process sv (Calls_BeforeCancel k) m =
     (let (r, m) = BeforeCancel sv m
      in run_process sv (k r) (emit (BeforeCancel_returns r) m))"

definition ProcessUpdateState :: "env \<Rightarrow> action \<Rightarrow> UpdateState \<times> action" where
  "ProcessUpdateState sv m =
     (let m = emit snapshot_ProcessUpdateState m
      in run_process sv (returns_process sv (trace m)) m)"

subsection \<open>Waiting for the merge\<close>

definition ScheduleWaitForMerge :: "env \<Rightarrow> action \<Rightarrow> action" where
  "ScheduleWaitForMerge sv m =
     (if \<not> running m then m
      else
        (let (posted, m) = PostTask sv Task_WaitForMergeOrSchedule kWaitForMergeInterval m in
         if \<not> posted then CheckTaskScheduled sv ''WaitForMerge'' m else m))"

text \<open>
  \<^verbatim>\<open>WaitForMergeOrSchedule\<close> and \<^verbatim>\<open>InitiateMergeAndWait\<close> call each other for as long as
  the snapshot manager keeps answering \<^verbatim>\<open>Unverified\<close> and then lets the merge start, so the
  pair takes fuel: one unit for every entry into \<^verbatim>\<open>WaitForMergeOrSchedule\<close>.
\<close>

fun WaitForMergeOrSchedule :: "env \<Rightarrow> nat \<Rightarrow> action \<Rightarrow> outcome option"
  and InitiateMergeAndWait :: "env \<Rightarrow> nat \<Rightarrow> action \<Rightarrow> outcome option" where
  "WaitForMergeOrSchedule sv 0 m = None"
| "WaitForMergeOrSchedule sv (Suc n) m =
     (let m = AcknowledgeTaskExecuted m in
      if \<not> running m then Some (Inr m)
      else
        (let m = emit snapshot_SetMergeStatsFeatures m;
             (failure_code, m) = ask_MergeFailureCode sv snapshot_ReadMergeFailureCode m;
             m = (if failure_code \<noteq> Ok
                  then emit (merge_stats_set_merge_failure_code failure_code) m else m);
             (state, m) = ProcessUpdateState sv m;
             m = emit (merge_stats_set_state state) m
         in case state of
              None_UpdateState \<Rightarrow>
                (let (cancelled, m) = ask_bool sv snapshot_CancelUpdate m;
                     error_code = (if \<not> cancelled then kError else kSuccess)
                 in Some (Inr (ActionComplete sv error_code m)))
            | Initiated \<Rightarrow> Some (Inr (ActionComplete sv kSuccess m))
            | Unverified \<Rightarrow> InitiateMergeAndWait sv n m
            | Merging \<Rightarrow> Some (Inr (ScheduleWaitForMerge sv m))
            | MergeNeedsReboot \<Rightarrow> Some (Inr (ActionComplete sv kError m))
            | MergeCompleted \<Rightarrow>
                (let (slot, m) = ask_Slot sv boot_control_GetCurrentSlot m;
                     m = emit (boot_control_MarkSlotUnbootable (1 - slot)) m
                 in Some (Inr (ActionComplete sv kSuccess m)))
            | MergeFailed \<Rightarrow>
                (let (code, m) = ask_MergeFailureCode sv snapshot_ReadMergeFailureCode m;
                     m = emit (merge_stats_set_merge_failure_code code) m
                 in Some (Inr (ActionComplete sv kDeviceCorrupted m)))
            | Cancelled \<Rightarrow>
                (let error_code = (if cancel_failed m then kError else kSuccess)
                 in Some (Inr (ActionComplete sv error_code m)))
            | Unrecognized v \<Rightarrow> Some (Inl (LOG_FATAL state, m))))"
| "InitiateMergeAndWait sv n m =
     (if \<not> running m then Some (Inr m)
      else
        (let (dsu, m) = ask_bool sv (GetBoolProperty ''ro.gsid.image_running'' False) m in
         if dsu then Some (Inr (ActionComplete sv kError m))
         else
           (let m = emit snapshot_UpdateCowStats m;
                (merge_start_time, m) = ask_int sv boot_clock_now m;
                (boot_complete_time, m) = ask_int sv merge_stats_boot_complete_time_ms m;
                m = emit (merge_stats_set_boot_complete_to_merge_start_time_ms
                            (merge_start_time - boot_complete_time)) m;
                (source_build_fingerprint, m) =
                  ask_string sv snapshot_ReadSourceBuildFingerprint m;
                m = emit (merge_stats_set_source_build_fingerprint source_build_fingerprint) m;
                (written, m) = ask_bool sv merge_stats_WriteState m;
                (initiated, m) = ask_bool sv snapshot_InitiateMerge m
            in if initiated then WaitForMergeOrSchedule sv n m
               else
                 (let (state, m) = ask_UpdateState sv snapshot_GetUpdateState m;
                      m = emit (merge_stats_set_state state) m
                  in if state = Unverified then Some (Inr (ActionComplete sv kSuccess m))
                     else WaitForMergeOrSchedule sv n m))))"

subsection \<open>Starting the merge\<close>

definition StartMerge :: "env \<Rightarrow> nat \<Rightarrow> action \<Rightarrow> outcome option" where
  "StartMerge sv n m =
     (let m = (if \<not> metadata_device m then
                 (let (mounted, m) = ask_bool sv snapshot_EnsureMetadataMounted m
                  in m\<lparr>metadata_device := mounted\<rparr>)
               else m)
      in if \<not> metadata_device m then
           Some (Inr (ActionComplete sv (if kIsRecovery sv then kSuccess else kError) m))
         else
           (let (proceed, m) =
                  (if kIsRecovery sv then
                     (let (snapshots_created, m) =
                            ask_CreateResult sv snapshot_RecoveryCreateSnapshotDevices m
                      in (case snapshots_created of
                            CREATED \<Rightarrow> (True, m)
                          | NOT_CREATED \<Rightarrow> (True, m)
                          | ERROR \<Rightarrow> (False, m)
                          | OtherCreateResult v \<Rightarrow> (False, m)))
                   else (True, m))
            in if \<not> proceed then Some (Inr (ActionComplete sv kError m))
               else
                 (let (started, m) = ask_bool sv merge_stats_Start m
                  in WaitForMergeOrSchedule sv n m)))"

text \<open>\<^verbatim>\<open>std::clamp<int>(v, lo, hi)\<close>.\<close>

definition clamp :: "int \<Rightarrow> int \<Rightarrow> int \<Rightarrow> int" where
  "clamp v lo hi = (if v < lo then lo else if hi < v then hi else v)"

definition CheckForMergeDelay :: "env \<Rightarrow> nat \<Rightarrow> action \<Rightarrow> outcome option" where
  "CheckForMergeDelay sv n m =
     (let (needed, m) = ask_bool sv snapshot_IsSnapshotManagerNeeded m in
      if \<not> needed then StartMerge sv n m
      else
        (let (property, m) = ask_int sv (GetIntProperty kMergeDelaySecondsProp 0) m;
             merge_delay_seconds = clamp property 0 kMaxMergeDelaySeconds;
             (posted, m) = PostTask sv Task_StartMerge (nat merge_delay_seconds) m
         in if \<not> posted then Some (Inr (ActionComplete sv kError m)) else Some (Inr m)))"

subsection \<open>Waiting for the boot and for the slot\<close>

definition ScheduleWaitMarkBootSuccessful :: "env \<Rightarrow> action \<Rightarrow> action" where
  "ScheduleWaitMarkBootSuccessful sv m =
     (if \<not> running m then m
      else
        (let (posted, m) = PostTask sv Task_CheckSlotMarkedSuccessfulOrSchedule
                             kCheckSlotMarkedSuccessfulInterval m in
         if \<not> posted then CheckTaskScheduled sv ''WaitMarkBootSuccessful'' m else m))"

definition CheckSlotMarkedSuccessfulOrSchedule :: "env \<Rightarrow> nat \<Rightarrow> action \<Rightarrow> outcome option" where
  "CheckSlotMarkedSuccessfulOrSchedule sv n m =
     (let m = AcknowledgeTaskExecuted m in
      if \<not> running m then Some (Inr m)
      else
        (let (repeat, m) =
               (if \<not> kIsRecovery sv then
                  (let (slot, m) = ask_Slot sv boot_control_GetCurrentSlot m;
                       (successful, m) = ask_bool sv (boot_control_IsSlotMarkedSuccessful slot) m
                   in (\<not> successful, m))
                else (False, m))
         in if repeat then Some (Inr (ScheduleWaitMarkBootSuccessful sv m))
            else CheckForMergeDelay sv n m))"

definition ScheduleWaitBootCompleted :: "env \<Rightarrow> action \<Rightarrow> action" where
  "ScheduleWaitBootCompleted sv m =
     (if \<not> running m then m
      else
        (let (posted, m) = PostTask sv Task_WaitBootCompletedOrSchedule
                             kCheckBootCompletedInterval m in
         if \<not> posted then CheckTaskScheduled sv ''WaitBootCompleted'' m else m))"

definition WaitBootCompletedOrSchedule :: "env \<Rightarrow> nat \<Rightarrow> action \<Rightarrow> outcome option" where
  "WaitBootCompletedOrSchedule sv n m =
     (let m = AcknowledgeTaskExecuted m in
      if \<not> running m then Some (Inr m)
      else
        (let (repeat, m) =
               (if \<not> kIsRecovery sv then
                  (let (completed, m) = ask_bool sv (GetBoolProperty kBootCompletedProp False) m
                   in (\<not> completed, m))
                else (False, m))
         in if repeat then Some (Inr (ScheduleWaitBootCompleted sv m))
            else
              (let (boot_time, m) = ask_int sv boot_clock_now m;
                   m = emit (merge_stats_set_boot_complete_time_ms boot_time) m
               in CheckSlotMarkedSuccessfulOrSchedule sv n m)))"

subsection \<open>The action's interface\<close>

text \<open>
  The \<^verbatim>\<open>CHECK\<close>s on the collaborators are the only places where the source tests those
  pointers; everywhere else a call through one of them is modelled as the call it makes.
  On a device without Virtual A/B the action is completed before \<^verbatim>\<open>merge_stats_\<close> has
  been set: the processor receives \<^verbatim>\<open>kSuccess\<close>, \<^verbatim>\<open>ActionCompleted\<close> stops the action, and
  \<^verbatim>\<open>ReportMergeStats\<close> calls \<^verbatim>\<open>Finish\<close> through the null pointer, which ends the process.
  (If an earlier start has set the pointer, the completion is the ordinary one.)
\<close>

definition StartActionInternal :: "env \<Rightarrow> nat \<Rightarrow> action \<Rightarrow> outcome option" where
  "StartActionInternal sv n m =
     (if \<not> prefs m then Some (Inl (CHECK_failed ''prefs_'', m))
      else if \<not> boot_control m then Some (Inl (CHECK_failed ''boot_control_'', m))
      else
        (let m = m\<lparr>running := True\<rparr>;
             (enabled, m) = ask_bool sv boot_control_VirtualAbFeatureFlag_IsEnabled m
         in if \<not> enabled then
              (if merge_stats m then Some (Inr (ActionComplete sv kSuccess m))
               else Some (Inl (Null_dereference ''merge_stats_'',
                               StopActionInternal sv (emit (processor_ActionComplete kSuccess) m))))
            else if \<not> snapshot m then Some (Inl (CHECK_failed ''snapshot_ != nullptr'', m))
            else
              (let (instance, m) = ask_bool sv snapshot_GetSnapshotMergeStatsInstance m;
                   m = m\<lparr>merge_stats := instance\<rparr>
               in if \<not> merge_stats m
                  then Some (Inl (CHECK_failed ''merge_stats_ != nullptr'', m))
                  else WaitBootCompletedOrSchedule sv n m)))"

definition PerformAction :: "env \<Rightarrow> nat \<Rightarrow> action \<Rightarrow> outcome option" where
  "PerformAction sv n m = StartActionInternal sv n m"

definition TerminateProcessing :: "env \<Rightarrow> action \<Rightarrow> action" where
  "TerminateProcessing sv m = StopActionInternal sv m"

definition ResumeAction :: "env \<Rightarrow> nat \<Rightarrow> action \<Rightarrow> outcome option" where
  "ResumeAction sv n m = StartActionInternal sv n m"

definition SuspendAction :: "env \<Rightarrow> action \<Rightarrow> action" where
  "SuspendAction sv m = StopActionInternal sv m"

text \<open>
  Everything that can happen to an instance between its construction and its end: a call
  of its interface, or the message loop firing one of the four callbacks. The callback of
  a task whose cancellation failed fires too, so a firing is not tied to the task that is
  tracked. \<open>run\<close> performs a list of these, and stops where the process aborts.
\<close>

datatype operation =
    Calls_PerformAction
  | Calls_TerminateProcessing
  | Calls_ResumeAction
  | Calls_SuspendAction
  | Fires task

fun callback :: "env \<Rightarrow> nat \<Rightarrow> task \<Rightarrow> action \<Rightarrow> outcome option" where
  "callback sv n Task_WaitBootCompletedOrSchedule m = WaitBootCompletedOrSchedule sv n m"
| "callback sv n Task_CheckSlotMarkedSuccessfulOrSchedule m =
     CheckSlotMarkedSuccessfulOrSchedule sv n m"
| "callback sv n Task_StartMerge m = StartMerge sv n m"
| "callback sv n Task_WaitForMergeOrSchedule m = WaitForMergeOrSchedule sv n m"

fun perform :: "env \<Rightarrow> nat \<Rightarrow> operation \<Rightarrow> action \<Rightarrow> outcome option" where
  "perform sv n Calls_PerformAction m = PerformAction sv n m"
| "perform sv n Calls_TerminateProcessing m = Some (Inr (TerminateProcessing sv m))"
| "perform sv n Calls_ResumeAction m = ResumeAction sv n m"
| "perform sv n Calls_SuspendAction m = Some (Inr (SuspendAction sv m))"
| "perform sv n (Fires t) m = callback sv n t (ExecuteTask m)"

fun run :: "env \<Rightarrow> nat \<Rightarrow> operation list \<Rightarrow> action \<Rightarrow> outcome option" where
  "run sv n [] m = Some (Inr m)"
| "run sv n (op # ops) m =
     (case perform sv n op m of
        None \<Rightarrow> None
      | Some (Inl a) \<Rightarrow> Some (Inl a)
      | Some (Inr m') \<Rightarrow> run sv n ops m')"

subsection \<open>Reading a trace\<close>

text \<open>The codes handed to the processor, in order.\<close>

fun completions :: "history \<Rightarrow> ErrorCode list" where
  "completions [] = []"
| "completions (processor_ActionComplete code # es) = code # completions es"
| "completions (e # es) = completions es"

text \<open>The tasks handed to the message loop, accepted or not.\<close>

fun posts :: "history \<Rightarrow> task list" where
  "posts [] = []"
| "posts (scheduled_task_PostTask t d # es) = t # posts es"
| "posts (e # es) = posts es"

text \<open>The slots marked unbootable.\<close>

fun marked_unbootable :: "history \<Rightarrow> Slot list" where
  "marked_unbootable [] = []"
| "marked_unbootable (boot_control_MarkSlotUnbootable slot # es) = slot # marked_unbootable es"
| "marked_unbootable (e # es) = marked_unbootable es"

text \<open>The failure codes written to the statistics recorder.\<close>

fun failure_codes_set :: "history \<Rightarrow> MergeFailureCode list" where
  "failure_codes_set [] = []"
| "failure_codes_set (merge_stats_set_merge_failure_code code # es) = code # failure_codes_set es"
| "failure_codes_set (e # es) = failure_codes_set es"

text \<open>What the two callbacks returned, in order.\<close>

fun progress_results :: "history \<Rightarrow> bool list" where
  "progress_results [] = []"
| "progress_results (OnMergePercentageUpdate_returns r # es) = r # progress_results es"
| "progress_results (e # es) = progress_results es"

fun before_cancel_results :: "history \<Rightarrow> bool list" where
  "before_cancel_results [] = []"
| "before_cancel_results (BeforeCancel_returns r # es) = r # before_cancel_results es"
| "before_cancel_results (e # es) = before_cancel_results es"

text \<open>The progress lines logged.\<close>

fun progress_logged :: "history \<Rightarrow> nat list" where
  "progress_logged [] = []"
| "progress_logged (LOG_Waiting_for_merge_to_complete p # es) = p # progress_logged es"
| "progress_logged (e # es) = progress_logged es"

subsection \<open>Naming the moments of a run\<close>

text \<open>
  The action as \<^verbatim>\<open>WaitForMergeOrSchedule\<close> has it when it calls \<^verbatim>\<open>ProcessUpdateState\<close>
  (the features are forwarded and the failure code is propagated), and what that call
  then reports: the state, and the action after the callbacks have run.
\<close>

definition at_ProcessUpdateState :: "env \<Rightarrow> action \<Rightarrow> action" where
  "at_ProcessUpdateState sv m =
     (let m = emit snapshot_SetMergeStatsFeatures m;
          (failure_code, m) = ask_MergeFailureCode sv snapshot_ReadMergeFailureCode m
      in if failure_code \<noteq> Ok
         then emit (merge_stats_set_merge_failure_code failure_code) m else m)"

definition reported :: "env \<Rightarrow> action \<Rightarrow> UpdateState \<times> action" where
  "reported sv m = ProcessUpdateState sv (at_ProcessUpdateState sv m)"

subsection \<open>Sample environments and instances\<close>

text \<open>
  An outside all of whose answers are constant: every boolean call returns \<open>b\<close>,
  \<^verbatim>\<open>ProcessUpdateState\<close> runs no callback and returns \<open>state\<close>, every other call returns the
  zero of its type, \<^verbatim>\<open>Finish\<close> returns no result.
\<close>

definition constant_env :: "bool \<Rightarrow> bool \<Rightarrow> UpdateState \<Rightarrow> env" where
  "constant_env recovery b state =
     \<lparr>kIsRecovery = recovery, UE_DISABLE_STATS = False,
      returns_bool = (\<lambda>h. b), returns_int = (\<lambda>h. 0), returns_string = (\<lambda>h. []),
      returns_double = (\<lambda>h. 0), returns_Slot = (\<lambda>h. 0), returns_UpdateState = (\<lambda>h. state),
      returns_MergeFailureCode = (\<lambda>h. Ok), returns_CreateResult = (\<lambda>h. CREATED),
      returns_Result = (\<lambda>h. None), returns_process = (\<lambda>h. Return state)\<rparr>"

text \<open>An instance that has been started: running, with the statistics recorder and no
  task tracked.\<close>

definition started :: action where
  "started = (CleanupPreviousUpdateAction True True True True)
               \<lparr>running := True, merge_stats := True,
                trace := [boot_control_VirtualAbFeatureFlag_IsEnabled,
                          snapshot_GetSnapshotMergeStatsInstance]\<rparr>"

subsection \<open>How an instance evolves\<close>

text \<open>
  \<open>evolves m m'\<close>: \<open>m'\<close> is a later moment of the instance \<open>m\<close>. The trace has grown at its
  end, and \<open>cancel_failed\<close> is set in \<open>m'\<close> exactly if it was set in \<open>m\<close> or a run of
  \<^verbatim>\<open>BeforeCancel\<close> in between returned false.
\<close>

definition evolves :: "action \<Rightarrow> action \<Rightarrow> bool" where
  "evolves m m' =
     (\<exists>ext. trace m' = trace m @ ext \<and>
            cancel_failed m' = (cancel_failed m \<or> False \<in> set (before_cancel_results ext)))"

text \<open>
  The action as \<^verbatim>\<open>InitiateMergeAndWait\<close> has it when it calls \<^verbatim>\<open>InitiateMerge\<close>: the check
  for a running DSU image is behind it, the copy-on-write statistics, the time from boot
  to merge and the source fingerprint are recorded, and the statistics are written.
\<close>

definition at_InitiateMerge :: "env \<Rightarrow> action \<Rightarrow> action" where
  "at_InitiateMerge sv m =
     (let (dsu, m) = ask_bool sv (GetBoolProperty ''ro.gsid.image_running'' False) m;
          m = emit snapshot_UpdateCowStats m;
          (merge_start_time, m) = ask_int sv boot_clock_now m;
          (boot_complete_time, m) = ask_int sv merge_stats_boot_complete_time_ms m;
          m = emit (merge_stats_set_boot_complete_to_merge_start_time_ms
                      (merge_start_time - boot_complete_time)) m;
          (source_build_fingerprint, m) = ask_string sv snapshot_ReadSourceBuildFingerprint m;
          m = emit (merge_stats_set_source_build_fingerprint source_build_fingerprint) m;
          (written, m) = ask_bool sv merge_stats_WriteState m
      in m)"

text \<open>An outside whose \<open>i\<close>-th call of \<^verbatim>\<open>GetUpdateState\<close> reports the \<open>i\<close>-th percentage of
  a list; as \<open>constant_env False False Merging\<close> otherwise.\<close>

definition reports_progress :: "real list \<Rightarrow> env" where
  "reports_progress ps =
     (constant_env False False Merging)
       \<lparr>returns_double := \<lambda>h. ps ! (length (filter (\<lambda>e. e = snapshot_GetUpdateState) h) - 1)\<rparr>"

text \<open>The fractions delivered to the delegate.\<close>

fun progress_delivered :: "history \<Rightarrow> real list" where
  "progress_delivered [] = []"
| "progress_delivered (delegate_OnCleanupProgressUpdate x # es) = x # progress_delivered es"
| "progress_delivered (e # es) = progress_delivered es"

text \<open>
  An outside in which a cancellation cannot be validated: the device supports Virtual A/B
  and hands out its statistics recorder, the message loop accepts every task, every other
  boolean call (the boot-completed property and \<^verbatim>\<open>ResetUpdateProgress\<close> among them) returns
  false, the guarded preference holds a value, and \<^verbatim>\<open>ProcessUpdateState\<close> runs
  \<^verbatim>\<open>BeforeCancel\<close> once and then reports \<^verbatim>\<open>Cancelled\<close>.
\<close>

definition accepts :: "history \<Rightarrow> bool" where
  "accepts h =
     (case last h of
        boot_control_VirtualAbFeatureFlag_IsEnabled \<Rightarrow> True
      | snapshot_GetSnapshotMergeStatsInstance \<Rightarrow> True
      | scheduled_task_PostTask t d \<Rightarrow> True
      | _ \<Rightarrow> False)"

definition cancel_env :: env where
  "cancel_env =
     (constant_env False False Cancelled)
       \<lparr>returns_bool := accepts,
        returns_string := \<lambda>h. ''1'',
        returns_process := \<lambda>h. Calls_BeforeCancel (\<lambda>r. Return Cancelled)\<rparr>"


text \<open>
  An outside in which everything succeeds except the cancellation of a task, and the
  instance that \<^verbatim>\<open>PerformAction\<close> followed by \<^verbatim>\<open>SuspendAction\<close> leaves behind there: the
  delayed \<^verbatim>\<open>StartMerge\<close> has been posted, the action is stopped, and the task could not be
  cancelled.
\<close>

definition cancel_fails_env :: env where
  "cancel_fails_env =
     (constant_env False True Merging)\<lparr>returns_bool := \<lambda>h. last h \<noteq> scheduled_task_Cancel\<rparr>"

definition suspended :: action where
  "suspended =
     \<lparr>prefs = True, boot_control = True, snapshot = True, delegate = False, running = False,
      cancel_failed = False, last_percentage = 0, merge_stats = True, metadata_device = False,
      scheduled_task = None,
      trace = [boot_control_VirtualAbFeatureFlag_IsEnabled,
               snapshot_GetSnapshotMergeStatsInstance,
               GetBoolProperty kBootCompletedProp False,
               boot_clock_now,
               merge_stats_set_boot_complete_time_ms 0,
               boot_control_GetCurrentSlot,
               boot_control_IsSlotMarkedSuccessful 0,
               snapshot_IsSnapshotManagerNeeded,
               GetIntProperty kMergeDelaySecondsProp 0,
               scheduled_task_PostTask Task_StartMerge 0,
               scheduled_task_Cancel]\<rparr>"


section \<open>Properties\<close>

subsection \<open>Reading a trace piece by piece\<close>

lemma completions_append: "completions (xs @ ys) = completions xs @ completions ys"
  by (induction xs rule: completions.induct) simp_all

lemma posts_append: "posts (xs @ ys) = posts xs @ posts ys"
  by (induction xs rule: posts.induct) simp_all

lemma marked_unbootable_append:
  "marked_unbootable (xs @ ys) = marked_unbootable xs @ marked_unbootable ys"
  by (induction xs rule: marked_unbootable.induct) simp_all

lemma failure_codes_set_append:
  "failure_codes_set (xs @ ys) = failure_codes_set xs @ failure_codes_set ys"
  by (induction xs rule: failure_codes_set.induct) simp_all

lemma before_cancel_results_append:
  "before_cancel_results (xs @ ys) = before_cancel_results xs @ before_cancel_results ys"
  by (induction xs rule: before_cancel_results.induct) simp_all

lemma progress_logged_append:
  "progress_logged (xs @ ys) = progress_logged xs @ progress_logged ys"
  by (induction xs rule: progress_logged.induct) simp_all

lemmas readers_append = completions_append posts_append marked_unbootable_append
  failure_codes_set_append before_cancel_results_append progress_logged_append

lemmas ask_defs = emit_def ask_bool_def ask_int_def ask_string_def ask_double_def ask_Slot_def
  ask_UpdateState_def ask_MergeFailureCode_def ask_CreateResult_def ask_Result_def

lemma StopActionInternal_fields:
  "running (StopActionInternal sv m) = False"
  "scheduled_task (StopActionInternal sv m) = None"
  "cancel_failed (StopActionInternal sv m) = cancel_failed m"
  "metadata_device (StopActionInternal sv m) = metadata_device m"
  "last_percentage (StopActionInternal sv m) = last_percentage m"
  by (auto simp: StopActionInternal_def IsScheduled_def Cancel_def ask_defs Let_def split_def)

lemma StopActionInternal_trace:
  "trace (StopActionInternal sv m) =
     trace m @ (if scheduled_task m = None then [] else [scheduled_task_Cancel])"
  by (auto simp: StopActionInternal_def IsScheduled_def Cancel_def ask_defs Let_def split_def)

lemma ReportMergeStats_fields:
  "running (ReportMergeStats sv m) = running m"
  "scheduled_task (ReportMergeStats sv m) = scheduled_task m"
  "cancel_failed (ReportMergeStats sv m) = cancel_failed m"
  "metadata_device (ReportMergeStats sv m) = metadata_device m"
  "last_percentage (ReportMergeStats sv m) = last_percentage m"
  by (auto simp: ReportMergeStats_def ask_defs Let_def split_def split: option.splits)

lemma ReportMergeStats_trace:
  "\<exists>tail. trace (ReportMergeStats sv m) = trace m @ merge_stats_Finish # tail \<and>
     completions tail = [] \<and> posts tail = [] \<and> marked_unbootable tail = [] \<and>
     failure_codes_set tail = [] \<and> before_cancel_results tail = [] \<and> progress_logged tail = []"
  by (auto simp: ReportMergeStats_def ask_defs Let_def split_def split: option.splits)

lemma ActionComplete_fields:
  "running (ActionComplete sv c m) = False"
  "scheduled_task (ActionComplete sv c m) = None"
  "cancel_failed (ActionComplete sv c m) = cancel_failed m"
  "metadata_device (ActionComplete sv c m) = False"
  "last_percentage (ActionComplete sv c m) = last_percentage m"
  by (simp_all add: ActionComplete_def ActionCompleted_def Let_def ReportMergeStats_fields
      StopActionInternal_fields emit_def)

lemma ActionComplete_trace:
  "\<exists>tail. trace (ActionComplete sv c m) = trace m @ processor_ActionComplete c # tail \<and>
     completions tail = [] \<and> posts tail = [] \<and> marked_unbootable tail = [] \<and>
     failure_codes_set tail = [] \<and> before_cancel_results tail = [] \<and> progress_logged tail = []"
proof -
  let ?m1 = "emit (processor_ActionComplete c) m"
  let ?m2 = "StopActionInternal sv ?m1"
  obtain tail where t: "trace (ReportMergeStats sv ?m2) = trace ?m2 @ merge_stats_Finish # tail"
    "completions tail = []" "posts tail = []" "marked_unbootable tail = []"
    "failure_codes_set tail = []" "before_cancel_results tail = []" "progress_logged tail = []"
    using ReportMergeStats_trace [of sv ?m2] by blast
  have "trace (ActionComplete sv c m) = trace (ReportMergeStats sv ?m2)"
    by (simp add: ActionComplete_def ActionCompleted_def Let_def)
  then show ?thesis using t
    by (cases "scheduled_task m") (simp_all add: StopActionInternal_trace emit_def)
qed

lemma ActionComplete_readers:
  "completions (trace (ActionComplete sv c m)) = completions (trace m) @ [c]"
  "posts (trace (ActionComplete sv c m)) = posts (trace m)"
  "marked_unbootable (trace (ActionComplete sv c m)) = marked_unbootable (trace m)"
  "failure_codes_set (trace (ActionComplete sv c m)) = failure_codes_set (trace m)"
  "before_cancel_results (trace (ActionComplete sv c m)) = before_cancel_results (trace m)"
  "progress_logged (trace (ActionComplete sv c m)) = progress_logged (trace m)"
  using ActionComplete_trace [of sv c m] by (auto simp: readers_append)

lemma OnMergePercentageUpdate_frame:
  "running (snd (OnMergePercentageUpdate sv m)) = running m"
  "scheduled_task (snd (OnMergePercentageUpdate sv m)) = scheduled_task m"
  "cancel_failed (snd (OnMergePercentageUpdate sv m)) = cancel_failed m"
  "metadata_device (snd (OnMergePercentageUpdate sv m)) = metadata_device m"
  "completions (trace (snd (OnMergePercentageUpdate sv m))) = completions (trace m)"
  "posts (trace (snd (OnMergePercentageUpdate sv m))) = posts (trace m)"
  "marked_unbootable (trace (snd (OnMergePercentageUpdate sv m))) = marked_unbootable (trace m)"
  "failure_codes_set (trace (snd (OnMergePercentageUpdate sv m))) = failure_codes_set (trace m)"
  "before_cancel_results (trace (snd (OnMergePercentageUpdate sv m))) = before_cancel_results (trace m)"
  by (simp_all add: OnMergePercentageUpdate_def ask_defs Let_def split_def readers_append)

lemma BeforeCancel_frame:
  "running (snd (BeforeCancel sv m)) = running m"
  "scheduled_task (snd (BeforeCancel sv m)) = scheduled_task m"
  "metadata_device (snd (BeforeCancel sv m)) = metadata_device m"
  "completions (trace (snd (BeforeCancel sv m))) = completions (trace m)"
  "posts (trace (snd (BeforeCancel sv m))) = posts (trace m)"
  "marked_unbootable (trace (snd (BeforeCancel sv m))) = marked_unbootable (trace m)"
  "failure_codes_set (trace (snd (BeforeCancel sv m))) = failure_codes_set (trace m)"
  "before_cancel_results (trace (snd (BeforeCancel sv m))) = before_cancel_results (trace m)"
  by (simp_all add: BeforeCancel_def ask_defs Let_def split_def readers_append)

lemma BeforeCancel_cancel_failed:
  "cancel_failed (snd (BeforeCancel sv m)) = (cancel_failed m \<or> \<not> fst (BeforeCancel sv m))"
  by (simp add: BeforeCancel_def ask_defs Let_def split_def)

lemma run_process_frame:
  "running (snd (run_process sv p m)) = running m \<and>
   scheduled_task (snd (run_process sv p m)) = scheduled_task m \<and>
   metadata_device (snd (run_process sv p m)) = metadata_device m \<and>
   completions (trace (snd (run_process sv p m))) = completions (trace m) \<and>
   posts (trace (snd (run_process sv p m))) = posts (trace m) \<and>
   marked_unbootable (trace (snd (run_process sv p m))) = marked_unbootable (trace m) \<and>
   failure_codes_set (trace (snd (run_process sv p m))) = failure_codes_set (trace m)"
proof (induction p arbitrary: m)
  case (Return s)
  show ?case by simp
next
  case (Calls_OnMergePercentageUpdate k)
  show ?case
    by (simp add: split_def Let_def emit_def OnMergePercentageUpdate_frame readers_append
          Calls_OnMergePercentageUpdate [OF rangeI])
next
  case (Calls_BeforeCancel k)
  show ?case
    by (simp add: split_def Let_def emit_def BeforeCancel_frame readers_append
          Calls_BeforeCancel [OF rangeI])
qed

lemma ProcessUpdateState_frame:
  "running (snd (ProcessUpdateState sv m)) = running m"
  "scheduled_task (snd (ProcessUpdateState sv m)) = scheduled_task m"
  "metadata_device (snd (ProcessUpdateState sv m)) = metadata_device m"
  "completions (trace (snd (ProcessUpdateState sv m))) = completions (trace m)"
  "posts (trace (snd (ProcessUpdateState sv m))) = posts (trace m)"
  "marked_unbootable (trace (snd (ProcessUpdateState sv m))) = marked_unbootable (trace m)"
  "failure_codes_set (trace (snd (ProcessUpdateState sv m))) = failure_codes_set (trace m)"
  by (simp_all add: ProcessUpdateState_def Let_def run_process_frame emit_def readers_append)

lemma at_ProcessUpdateState_frame:
  "running (at_ProcessUpdateState sv m) = running m"
  "scheduled_task (at_ProcessUpdateState sv m) = scheduled_task m"
  "metadata_device (at_ProcessUpdateState sv m) = metadata_device m"
  "cancel_failed (at_ProcessUpdateState sv m) = cancel_failed m"
  "completions (trace (at_ProcessUpdateState sv m)) = completions (trace m)"
  "posts (trace (at_ProcessUpdateState sv m)) = posts (trace m)"
  "marked_unbootable (trace (at_ProcessUpdateState sv m)) = marked_unbootable (trace m)"
  "before_cancel_results (trace (at_ProcessUpdateState sv m)) = before_cancel_results (trace m)"
  by (simp_all add: at_ProcessUpdateState_def ask_defs Let_def split_def readers_append)

lemma reported_frame:
  "running (snd (reported sv m)) = running m"
  "scheduled_task (snd (reported sv m)) = scheduled_task m"
  "metadata_device (snd (reported sv m)) = metadata_device m"
  "completions (trace (snd (reported sv m))) = completions (trace m)"
  "posts (trace (snd (reported sv m))) = posts (trace m)"
  "marked_unbootable (trace (snd (reported sv m))) = marked_unbootable (trace m)"
  by (simp_all add: reported_def ProcessUpdateState_frame at_ProcessUpdateState_frame)

declare WaitForMergeOrSchedule.simps [simp del] InitiateMergeAndWait.simps [simp del]

lemma WaitForMergeOrSchedule_running:
  assumes "running m"
  shows "WaitForMergeOrSchedule sv (Suc n) m =
     (let state = fst (reported sv m);
          m = emit (merge_stats_set_state state) (snd (reported sv m))
      in case state of
              None_UpdateState \<Rightarrow>
                (let (cancelled, m) = ask_bool sv snapshot_CancelUpdate m;
                     error_code = (if \<not> cancelled then kError else kSuccess)
                 in Some (Inr (ActionComplete sv error_code m)))
            | Initiated \<Rightarrow> Some (Inr (ActionComplete sv kSuccess m))
            | Unverified \<Rightarrow> InitiateMergeAndWait sv n m
            | Merging \<Rightarrow> Some (Inr (ScheduleWaitForMerge sv m))
            | MergeNeedsReboot \<Rightarrow> Some (Inr (ActionComplete sv kError m))
            | MergeCompleted \<Rightarrow>
                (let (slot, m) = ask_Slot sv boot_control_GetCurrentSlot m;
                     m = emit (boot_control_MarkSlotUnbootable (1 - slot)) m
                 in Some (Inr (ActionComplete sv kSuccess m)))
            | MergeFailed \<Rightarrow>
                (let (code, m) = ask_MergeFailureCode sv snapshot_ReadMergeFailureCode m;
                     m = emit (merge_stats_set_merge_failure_code code) m
                 in Some (Inr (ActionComplete sv kDeviceCorrupted m)))
            | Cancelled \<Rightarrow>
                (let error_code = (if cancel_failed m then kError else kSuccess)
                 in Some (Inr (ActionComplete sv error_code m)))
            | Unrecognized v \<Rightarrow> Some (Inl (LOG_FATAL state, m)))"
  using assms
  by (simp add: WaitForMergeOrSchedule.simps reported_def at_ProcessUpdateState_def
        AcknowledgeTaskExecuted_def Let_def split_def)

subsection \<open>The fatal path\<close>

text \<open>
  C1. Whenever \<^verbatim>\<open>ProcessUpdateState\<close> returns a value that is none of the eight members
  of \<^verbatim>\<open>UpdateState\<close>, a running \<^verbatim>\<open>WaitForMergeOrSchedule\<close> ends in \<^verbatim>\<open>LOG(FATAL)\<close>: the
  process aborts with that state, and between the entry and the abort no code at all has
  been handed to the processor.
\<close>

theorem unrecognized_state_is_fatal:
  assumes "running m"
    and "reported sv m = (state, m')"
    and "state \<notin> {None_UpdateState, Initiated, Unverified, Merging, MergeNeedsReboot,
                  MergeCompleted, MergeFailed, Cancelled}"
  shows "WaitForMergeOrSchedule sv (Suc n) m =
           Some (Inl (LOG_FATAL state, emit (merge_stats_set_state state) m')) \<and>
         completions (trace (emit (merge_stats_set_state state) m')) = completions (trace m)"
proof -
  obtain v where v: "state = Unrecognized v"
    using assms(3) by (cases state) simp_all
  have "completions (trace m') = completions (trace m)"
    using reported_frame(4) [of sv m] assms(2) by simp
  then show ?thesis
    using assms(1,2) v
    by (simp add: WaitForMergeOrSchedule_running Let_def emit_def readers_append)
qed

theorem unrecognized_state_is_fatal_witness:
  "running started \<and>
   fst (reported (constant_env False False (Unrecognized 8)) started) = Unrecognized 8 \<and>
   WaitForMergeOrSchedule (constant_env False False (Unrecognized 8)) (Suc 0) started =
     Some (Inl (LOG_FATAL (Unrecognized 8),
                emit (merge_stats_set_state (Unrecognized 8))
                  (snd (reported (constant_env False False (Unrecognized 8)) started)))) \<and>
   completions (trace (final (the
     (WaitForMergeOrSchedule (constant_env False False (Unrecognized 8)) (Suc 0) started)))) = []"
proof -
  let ?sv = "constant_env False False (Unrecognized 8)"
  have r: "running started"
    by (simp add: started_def)
  have f: "fst (reported ?sv started) = Unrecognized 8"
    by (simp add: reported_def ProcessUpdateState_def at_ProcessUpdateState_def constant_env_def
          Let_def ask_defs)
  have p: "reported ?sv started = (Unrecognized 8, snd (reported ?sv started))"
    using f by (simp add: prod_eq_iff)
  have c: "completions (trace started) = []"
    by (simp add: started_def CleanupPreviousUpdateAction_def)
  show ?thesis
    using unrecognized_state_is_fatal [OF r p, of 0] r f c by simp
qed

subsection \<open>Every step is an evolution\<close>

lemma evolves_refl: "evolves m m"
  by (simp add: evolves_def)

lemma evolves_trans: "evolves a b \<Longrightarrow> evolves b c \<Longrightarrow> evolves a c"
  by (auto simp: evolves_def readers_append)

lemma evolvesI:
  "trace m' = trace m @ ext \<Longrightarrow> before_cancel_results ext = [] \<Longrightarrow>
   cancel_failed m' = cancel_failed m \<Longrightarrow> evolves m m'"
  by (auto simp: evolves_def)


lemma evolves_update [simp]:
  "evolves m (m'\<lparr>running := r\<rparr>) = evolves m m'"
  "evolves m (m'\<lparr>scheduled_task := t\<rparr>) = evolves m m'"
  "evolves m (m'\<lparr>metadata_device := d\<rparr>) = evolves m m'"
  "evolves m (m'\<lparr>merge_stats := s\<rparr>) = evolves m m'"
  "evolves m (m'\<lparr>last_percentage := p\<rparr>) = evolves m m'"
  "evolves (m\<lparr>running := r\<rparr>) m' = evolves m m'"
  "evolves (m\<lparr>scheduled_task := t\<rparr>) m' = evolves m m'"
  "evolves (m\<lparr>metadata_device := d\<rparr>) m' = evolves m m'"
  "evolves (m\<lparr>merge_stats := s\<rparr>) m' = evolves m m'"
  "evolves (m\<lparr>last_percentage := p\<rparr>) m' = evolves m m'"
  by (simp_all add: evolves_def)

lemma evolves_emit:
  "before_cancel_results [e] = [] \<Longrightarrow> evolves m (emit e m)"
  by (rule evolvesI [where ext = "[e]"]) (simp_all add: emit_def)

lemma evolves_emit_then:
  "before_cancel_results [e] = [] \<Longrightarrow> evolves (emit e m) m' \<Longrightarrow> evolves m m'"
  by (blast intro: evolves_trans evolves_emit)

lemma evolves_ActionComplete: "evolves m (ActionComplete sv c m)"
proof -
  obtain tail where "trace (ActionComplete sv c m) = trace m @ processor_ActionComplete c # tail"
    "before_cancel_results tail = []"
    using ActionComplete_trace [of sv c m] by blast
  then show ?thesis
    by (intro evolvesI [where ext = "processor_ActionComplete c # tail"])
       (simp_all add: ActionComplete_fields)
qed


lemma evolves_PostTask: "evolves m (snd (PostTask sv t d m))"
  by (rule evolvesI [where ext = "[scheduled_task_PostTask t d]"])
     (simp_all add: PostTask_def ask_defs Let_def split_def)

lemma evolves_CheckTaskScheduled: "evolves m (CheckTaskScheduled sv name m)"
  by (simp add: CheckTaskScheduled_def evolves_refl evolves_ActionComplete)

lemma evolves_ScheduleWaitForMerge: "evolves m (ScheduleWaitForMerge sv m)"
  by (auto simp: ScheduleWaitForMerge_def Let_def split_def evolves_refl
      intro: evolves_trans [OF evolves_PostTask evolves_CheckTaskScheduled] evolves_PostTask)



lemma evolves_OnMergePercentageUpdate:
  "evolves m (emit (OnMergePercentageUpdate_returns (fst (OnMergePercentageUpdate sv m)))
               (snd (OnMergePercentageUpdate sv m)))"
  by (auto simp: evolves_def OnMergePercentageUpdate_def ask_defs Let_def split_def)

lemma evolves_BeforeCancel:
  "evolves m (emit (BeforeCancel_returns (fst (BeforeCancel sv m))) (snd (BeforeCancel sv m)))"
  by (auto simp: evolves_def BeforeCancel_def ask_defs Let_def split_def)

lemma evolves_run_process: "evolves m (snd (run_process sv p m))"
proof (induction p arbitrary: m)
  case (Return s)
  show ?case by (simp add: evolves_refl)
next
  case (Calls_OnMergePercentageUpdate k)
  show ?case
    using evolves_trans [OF evolves_OnMergePercentageUpdate Calls_OnMergePercentageUpdate [OF rangeI]]
    by (simp add: split_def Let_def)
next
  case (Calls_BeforeCancel k)
  show ?case
    using evolves_trans [OF evolves_BeforeCancel Calls_BeforeCancel [OF rangeI]]
    by (simp add: split_def Let_def)
qed

lemma evolves_ProcessUpdateState: "evolves m (snd (ProcessUpdateState sv m))"
  unfolding ProcessUpdateState_def Let_def
  by (rule evolves_emit_then [OF _ evolves_run_process]) simp

lemma evolves_at_ProcessUpdateState: "evolves m (at_ProcessUpdateState sv m)"
  by (auto simp: evolves_def at_ProcessUpdateState_def ask_defs Let_def split_def)

lemma evolves_reported: "evolves m (snd (reported sv m))"
  unfolding reported_def
  by (rule evolves_trans [OF evolves_at_ProcessUpdateState evolves_ProcessUpdateState])

lemma emit_fields [simp]:
  "trace (emit e m) = trace m @ [e]"
  "prefs (emit e m) = prefs m"
  "boot_control (emit e m) = boot_control m"
  "snapshot (emit e m) = snapshot m"
  "delegate (emit e m) = delegate m"
  "running (emit e m) = running m"
  "cancel_failed (emit e m) = cancel_failed m"
  "last_percentage (emit e m) = last_percentage m"
  "merge_stats (emit e m) = merge_stats m"
  "metadata_device (emit e m) = metadata_device m"
  "scheduled_task (emit e m) = scheduled_task m"
  by (simp_all add: emit_def)

lemmas ask_simps = ask_bool_def ask_int_def ask_string_def ask_double_def ask_Slot_def
  ask_UpdateState_def ask_MergeFailureCode_def ask_CreateResult_def ask_Result_def


lemma evolves_then_emit:
  "evolves m x \<Longrightarrow> before_cancel_results [e] = [] \<Longrightarrow> evolves m (emit e x)"
  by (blast intro: evolves_trans evolves_emit)

lemma evolves_then_ActionComplete:
  "evolves m x \<Longrightarrow> evolves m (ActionComplete sv c x)"
  by (blast intro: evolves_trans evolves_ActionComplete)

lemma evolves_then_ScheduleWaitForMerge:
  "evolves m x \<Longrightarrow> evolves m (ScheduleWaitForMerge sv x)"
  by (blast intro: evolves_trans evolves_ScheduleWaitForMerge)

lemmas evolves_then = evolves_then_emit evolves_then_ActionComplete
  evolves_then_ScheduleWaitForMerge evolves_refl

lemma at_InitiateMerge_frame:
  "running (at_InitiateMerge sv m) = running m"
  "scheduled_task (at_InitiateMerge sv m) = scheduled_task m"
  "metadata_device (at_InitiateMerge sv m) = metadata_device m"
  "cancel_failed (at_InitiateMerge sv m) = cancel_failed m"
  "completions (trace (at_InitiateMerge sv m)) = completions (trace m)"
  "posts (trace (at_InitiateMerge sv m)) = posts (trace m)"
  "marked_unbootable (trace (at_InitiateMerge sv m)) = marked_unbootable (trace m)"
  "failure_codes_set (trace (at_InitiateMerge sv m)) = failure_codes_set (trace m)"
  "before_cancel_results (trace (at_InitiateMerge sv m)) = before_cancel_results (trace m)"
  by (simp_all add: at_InitiateMerge_def ask_simps Let_def readers_append)

lemma evolves_at_InitiateMerge: "evolves m (at_InitiateMerge sv m)"
  by (simp add: at_InitiateMerge_def ask_simps Let_def evolves_then)

lemma InitiateMergeAndWait_running:
  assumes "running m"
  shows "InitiateMergeAndWait sv n m =
     (if returns_bool sv (trace m @ [GetBoolProperty ''ro.gsid.image_running'' False])
      then Some (Inr (ActionComplete sv kError
                        (emit (GetBoolProperty ''ro.gsid.image_running'' False) m)))
      else
        (let (initiated, m) = ask_bool sv snapshot_InitiateMerge (at_InitiateMerge sv m)
         in if initiated then WaitForMergeOrSchedule sv n m
            else
              (let (state, m) = ask_UpdateState sv snapshot_GetUpdateState m;
                   m = emit (merge_stats_set_state state) m
               in if state = Unverified then Some (Inr (ActionComplete sv kSuccess m))
                  else WaitForMergeOrSchedule sv n m)))"
  using assms
  by (simp add: InitiateMergeAndWait.simps at_InitiateMerge_def ask_simps Let_def)

lemma InitiateMergeAndWait_evolves_step:
  assumes W: "\<And>m r. WaitForMergeOrSchedule sv n m = Some r \<Longrightarrow> evolves m (final r)"
    and I: "InitiateMergeAndWait sv n m = Some r"
  shows "evolves m (final r)"
proof (cases "running m")
  case False
  then show ?thesis using I by (auto simp: InitiateMergeAndWait.simps evolves_refl)
next
  case True
  let ?d = "GetBoolProperty ''ro.gsid.image_running'' False"
  show ?thesis
  proof (cases "returns_bool sv (trace m @ [?d])")
    case dsu: True
    with I True have "r = Inr (ActionComplete sv kError (emit ?d m))"
      by (simp add: InitiateMergeAndWait_running)
    then show ?thesis by (simp add: evolves_then)
  next
    case nodsu: False
    let ?m1 = "emit snapshot_InitiateMerge (at_InitiateMerge sv m)"
    have e1: "evolves m ?m1"
      by (simp add: evolves_then evolves_at_InitiateMerge)
    show ?thesis
    proof (cases "returns_bool sv (trace (at_InitiateMerge sv m) @ [snapshot_InitiateMerge])")
      case True
      with I \<open>running m\<close> nodsu have "WaitForMergeOrSchedule sv n ?m1 = Some r"
        by (simp add: InitiateMergeAndWait_running ask_bool_def)
      from evolves_trans [OF e1 W [OF this]] show ?thesis .
    next
      case False
      let ?st = "returns_UpdateState sv (trace ?m1 @ [snapshot_GetUpdateState])"
      let ?m2 = "emit (merge_stats_set_state ?st) (emit snapshot_GetUpdateState ?m1)"
      have e2: "evolves m ?m2"
        by (simp add: evolves_then evolves_at_InitiateMerge)
      show ?thesis
      proof (cases "?st = Unverified")
        case True
        with I \<open>running m\<close> nodsu False have "r = Inr (ActionComplete sv kSuccess ?m2)"
          by (simp add: InitiateMergeAndWait_running ask_bool_def ask_UpdateState_def Let_def)
        then show ?thesis
          using evolves_trans [OF e2 evolves_ActionComplete] by simp
      next
        case nu: False
        with I \<open>running m\<close> nodsu False have "WaitForMergeOrSchedule sv n ?m2 = Some r"
          by (simp add: InitiateMergeAndWait_running ask_bool_def ask_UpdateState_def Let_def)
        from evolves_trans [OF e2 W [OF this]] show ?thesis .
      qed
    qed
  qed
qed

lemma WaitForMergeOrSchedule_evolves_step:
  assumes I: "\<And>m r. InitiateMergeAndWait sv n m = Some r \<Longrightarrow> evolves m (final r)"
    and W: "WaitForMergeOrSchedule sv (Suc n) m = Some r"
  shows "evolves m (final r)"
proof (cases "running m")
  case False
  then show ?thesis
    using W by (auto simp: WaitForMergeOrSchedule.simps AcknowledgeTaskExecuted_def evolves_refl)
next
  case True
  let ?st = "fst (reported sv m)"
  let ?m1 = "emit (merge_stats_set_state ?st) (snd (reported sv m))"
  have e1: "evolves m ?m1"
    by (simp add: evolves_then evolves_reported)
  show ?thesis
  proof (cases "?st = Unverified")
    case True
    with W \<open>running m\<close> have "InitiateMergeAndWait sv n ?m1 = Some r"
      by (simp add: WaitForMergeOrSchedule_running Let_def)
    from evolves_trans [OF e1 I [OF this]] show ?thesis .
  next
    case False
    with W \<open>running m\<close> show ?thesis
      by (cases ?st)
         (auto simp: WaitForMergeOrSchedule_running Let_def ask_bool_def ask_Slot_def
            ask_MergeFailureCode_def evolves_then evolves_reported)
  qed
qed

lemma WaitForMergeOrSchedule_evolves:
  "WaitForMergeOrSchedule sv n m = Some r \<Longrightarrow> evolves m (final r)"
proof (induction n arbitrary: m r)
  case 0
  then show ?case by (simp add: WaitForMergeOrSchedule.simps)
next
  case (Suc n)
  show ?case
    by (rule WaitForMergeOrSchedule_evolves_step [OF _ Suc.prems])
       (rule InitiateMergeAndWait_evolves_step [OF Suc.IH])
qed

lemma InitiateMergeAndWait_evolves:
  "InitiateMergeAndWait sv n m = Some r \<Longrightarrow> evolves m (final r)"
  by (rule InitiateMergeAndWait_evolves_step [OF WaitForMergeOrSchedule_evolves])

subsection \<open>The terminal states of a merge\<close>

text \<open>
  C7. When \<^verbatim>\<open>ProcessUpdateState\<close> reports \<^verbatim>\<open>MergeCompleted\<close>, a running
  \<^verbatim>\<open>WaitForMergeOrSchedule\<close> records the state, reads the current slot, marks slot
  \<open>1 - current\<close> unbootable and completes with \<^verbatim>\<open>kSuccess\<close>, in this order. Nothing else in
  the run marks a slot or completes: the callbacks before and the clean-up after do
  neither.
\<close>

theorem merge_completed_marks_inactive_slot:
  assumes "running m"
    and "reported sv m = (MergeCompleted, m')"
  shows "\<exists>m'' tail.
           WaitForMergeOrSchedule sv (Suc n) m = Some (Inr m'') \<and>
           trace m'' =
             trace m' @
             [merge_stats_set_state MergeCompleted, boot_control_GetCurrentSlot,
              boot_control_MarkSlotUnbootable
                (1 - returns_Slot sv (trace m' @ [merge_stats_set_state MergeCompleted,
                                                  boot_control_GetCurrentSlot])),
              processor_ActionComplete kSuccess] @ tail \<and>
           marked_unbootable tail = [] \<and> completions tail = [] \<and>
           marked_unbootable (trace m') = marked_unbootable (trace m) \<and>
           completions (trace m') = completions (trace m)"
proof -
  let ?slot = "returns_Slot sv (trace m' @ [merge_stats_set_state MergeCompleted,
                                            boot_control_GetCurrentSlot])"
  let ?m1 = "emit (boot_control_MarkSlotUnbootable (1 - ?slot))
               (emit boot_control_GetCurrentSlot
                  (emit (merge_stats_set_state MergeCompleted) m'))"
  have w: "WaitForMergeOrSchedule sv (Suc n) m = Some (Inr (ActionComplete sv kSuccess ?m1))"
    using assms by (simp add: WaitForMergeOrSchedule_running Let_def ask_Slot_def)
  obtain tail where t: "trace (ActionComplete sv kSuccess ?m1) =
      trace ?m1 @ processor_ActionComplete kSuccess # tail"
    "completions tail = []" "marked_unbootable tail = []"
    using ActionComplete_trace [of sv kSuccess ?m1] by blast
  have f: "marked_unbootable (trace m') = marked_unbootable (trace m)"
    "completions (trace m') = completions (trace m)"
    using reported_frame(4,6) [of sv m] assms(2) by simp_all
  show ?thesis
    using w t f by simp
qed

theorem merge_completed_marks_inactive_slot_witness:
  "running started \<and>
   fst (reported ((constant_env False False MergeCompleted)\<lparr>returns_Slot := \<lambda>h. 1\<rparr>) started)
     = MergeCompleted \<and>
   marked_unbootable (trace (final (the (WaitForMergeOrSchedule
     ((constant_env False False MergeCompleted)\<lparr>returns_Slot := \<lambda>h. 1\<rparr>) (Suc 0) started))))
     = [0] \<and>
   completions (trace (final (the (WaitForMergeOrSchedule
     ((constant_env False False MergeCompleted)\<lparr>returns_Slot := \<lambda>h. 1\<rparr>) (Suc 0) started))))
     = [kSuccess]"
proof -
  let ?sv = "(constant_env False False MergeCompleted)\<lparr>returns_Slot := \<lambda>h. 1\<rparr>"
  have r: "running started"
    by (simp add: started_def)
  have f: "fst (reported ?sv started) = MergeCompleted"
    by (simp add: reported_def ProcessUpdateState_def at_ProcessUpdateState_def constant_env_def
          Let_def ask_simps)
  have p: "reported ?sv started = (MergeCompleted, snd (reported ?sv started))"
    using f by (simp add: prod_eq_iff)
  have c: "completions (trace started) = []" "marked_unbootable (trace started) = []"
    by (simp_all add: started_def CleanupPreviousUpdateAction_def)
  have s: "returns_Slot ?sv = (\<lambda>h. 1)"
    by simp
  show ?thesis
    using merge_completed_marks_inactive_slot [OF r p, of 0] r f c
    by (auto simp: readers_append s)
qed

text \<open>
  C8. When \<^verbatim>\<open>ProcessUpdateState\<close> reports \<^verbatim>\<open>MergeFailed\<close>, a running
  \<^verbatim>\<open>WaitForMergeOrSchedule\<close> reads the merge failure code again, writes what this read
  returned to the statistics recorder, and only then completes, with
  \<^verbatim>\<open>kDeviceCorrupted\<close>. The clean-up after the completion writes no failure code and
  completes nothing.
\<close>

theorem merge_failed_reports_device_corrupted:
  assumes "running m"
    and "reported sv m = (MergeFailed, m')"
  shows "\<exists>m'' tail.
           WaitForMergeOrSchedule sv (Suc n) m = Some (Inr m'') \<and>
           trace m'' =
             trace m' @
             [merge_stats_set_state MergeFailed, snapshot_ReadMergeFailureCode,
              merge_stats_set_merge_failure_code
                (returns_MergeFailureCode sv
                   (trace m' @ [merge_stats_set_state MergeFailed,
                                snapshot_ReadMergeFailureCode])),
              processor_ActionComplete kDeviceCorrupted] @ tail \<and>
           failure_codes_set tail = [] \<and> completions tail = [] \<and>
           completions (trace m') = completions (trace m)"
proof -
  let ?code = "returns_MergeFailureCode sv
                 (trace m' @ [merge_stats_set_state MergeFailed, snapshot_ReadMergeFailureCode])"
  let ?m1 = "emit (merge_stats_set_merge_failure_code ?code)
               (emit snapshot_ReadMergeFailureCode
                  (emit (merge_stats_set_state MergeFailed) m'))"
  have w: "WaitForMergeOrSchedule sv (Suc n) m =
             Some (Inr (ActionComplete sv kDeviceCorrupted ?m1))"
    using assms by (simp add: WaitForMergeOrSchedule_running Let_def ask_MergeFailureCode_def)
  obtain tail where t: "trace (ActionComplete sv kDeviceCorrupted ?m1) =
      trace ?m1 @ processor_ActionComplete kDeviceCorrupted # tail"
    "completions tail = []" "failure_codes_set tail = []"
    using ActionComplete_trace [of sv kDeviceCorrupted ?m1] by blast
  have f: "completions (trace m') = completions (trace m)"
    using reported_frame(4) [of sv m] assms(2) by simp
  show ?thesis
    using w t f by simp
qed

theorem merge_failed_reports_device_corrupted_witness:
  "running started \<and>
   fst (reported ((constant_env False False MergeFailed)
                    \<lparr>returns_MergeFailureCode := \<lambda>h. OtherFailureCode 7\<rparr>) started)
     = MergeFailed \<and>
   failure_codes_set (trace (final (the (WaitForMergeOrSchedule
     ((constant_env False False MergeFailed)
        \<lparr>returns_MergeFailureCode := \<lambda>h. OtherFailureCode 7\<rparr>) (Suc 0) started))))
     = [OtherFailureCode 7, OtherFailureCode 7] \<and>
   completions (trace (final (the (WaitForMergeOrSchedule
     ((constant_env False False MergeFailed)
        \<lparr>returns_MergeFailureCode := \<lambda>h. OtherFailureCode 7\<rparr>) (Suc 0) started))))
     = [kDeviceCorrupted]"
proof -
  let ?sv = "(constant_env False False MergeFailed)
               \<lparr>returns_MergeFailureCode := \<lambda>h. OtherFailureCode 7\<rparr>"
  have r: "running started"
    by (simp add: started_def)
  have f: "fst (reported ?sv started) = MergeFailed"
    by (simp add: reported_def ProcessUpdateState_def at_ProcessUpdateState_def constant_env_def
          Let_def ask_simps)
  have p: "reported ?sv started = (MergeFailed, snd (reported ?sv started))"
    using f by (simp add: prod_eq_iff)
  have t: "failure_codes_set (trace (snd (reported ?sv started))) = [OtherFailureCode 7]"
    by (simp add: reported_def ProcessUpdateState_def at_ProcessUpdateState_def constant_env_def
          Let_def ask_simps started_def CleanupPreviousUpdateAction_def)
  have c: "completions (trace started) = []"
    by (simp add: started_def CleanupPreviousUpdateAction_def)
  have s: "returns_MergeFailureCode ?sv = (\<lambda>h. OtherFailureCode 7)"
    by simp
  show ?thesis
    using merge_failed_reports_device_corrupted [OF r p, of 0] r f c t
    by (auto simp: readers_append s)
qed

subsection \<open>Starting the merge without the metadata volume\<close>

text \<open>
  C6. \<^verbatim>\<open>StartMerge\<close> holds no metadata device and \<^verbatim>\<open>EnsureMetadataMounted\<close> returns null:
  the action completes, once, with \<^verbatim>\<open>kError\<close> in a normal boot and with \<^verbatim>\<open>kSuccess\<close> in
  recovery. On this path nothing is posted to the message loop, and when the function
  returns the handle tracks no task and the action is stopped.
\<close>

theorem metadata_mount_failure_completes:
  assumes "\<not> metadata_device m"
    and "\<not> returns_bool sv (trace m @ [snapshot_EnsureMetadataMounted])"
  shows "\<exists>m'. StartMerge sv n m = Some (Inr m') \<and>
           completions (trace m') =
             completions (trace m) @ [if kIsRecovery sv then kSuccess else kError] \<and>
           posts (trace m') = posts (trace m) \<and>
           scheduled_task m' = None \<and> \<not> running m'"
  using assms
  by (simp add: StartMerge_def ask_simps Let_def ActionComplete_fields ActionComplete_readers
        readers_append)

theorem metadata_mount_failure_completes_witness:
  "\<not> metadata_device started \<and>
   \<not> returns_bool (constant_env False False Merging)
       (trace started @ [snapshot_EnsureMetadataMounted]) \<and>
   completions (trace (final (the (StartMerge (constant_env False False Merging) 0 started)))) =
     [kError] \<and>
   completions (trace (final (the (StartMerge (constant_env True False Merging) 0 started)))) =
     [kSuccess] \<and>
   scheduled_task (final (the (StartMerge (constant_env False False Merging) 0 started))) =
     None \<and>
   scheduled_task (final (the (StartMerge (constant_env True False Merging) 0 started))) =
     None"
proof -
  let ?m = "started"
  have a: "\<not> metadata_device ?m" "completions (trace ?m) = []"
    by (simp_all add: started_def CleanupPreviousUpdateAction_def)
  have b: "\<not> returns_bool (constant_env r False Merging) (trace ?m @ [snapshot_EnsureMetadataMounted])"
    "kIsRecovery (constant_env r False Merging) = r" for r
    by (simp_all add: constant_env_def)
  show ?thesis
    using metadata_mount_failure_completes [OF a(1) b(1), of False 0]
      metadata_mount_failure_completes [OF a(1) b(1), of True 0] a b(1) [of False]
    by (auto simp: b(2))
qed

subsection \<open>The progress callback\<close>

lemma round_to_nearest_even_error: "\<bar>of_int (round_to_nearest_even z) - z\<bar> \<le> 1 / 2"
  unfolding round_to_nearest_even_def Let_def by (auto simp: abs_if) linarith+

lemma round_to_nearest_even_le: "z \<le> of_int n \<Longrightarrow> round_to_nearest_even z \<le> n"
  unfolding round_to_nearest_even_def Let_def
  by (auto simp: floor_le_iff less_floor_iff le_floor_iff)

lemma round_to_nearest_even_nonneg: "0 \<le> z \<Longrightarrow> 0 \<le> round_to_nearest_even z"
  unfolding round_to_nearest_even_def Let_def by auto

lemma binary64_unit_interval:
  assumes "0 \<le> y" and "y \<le> 1"
  shows "0 \<le> binary64 y \<and> binary64 y \<le> 1 \<and> \<bar>binary64 y - y\<bar> \<le> 1 / 2 ^ 53"
proof (cases "y = 0")
  case True
  then show ?thesis by (simp add: binary64_def)
next
  case False
  with assms have pos: "0 < y" by simp
  define e where "e = max \<lfloor>log 2 y\<rfloor> (- 1022)"
  define n where "n = nat (52 - e)"
  define r where "r = round_to_nearest_even (y * 2 ^ n)"
  have "log 2 y \<le> 0" using pos assms(2) by simp
  then have "\<lfloor>log 2 y\<rfloor> \<le> 0" by (simp add: floor_le_iff)
  then have e0: "e \<le> 0" by (simp add: e_def)
  then have n52: "52 \<le> n" by (simp add: n_def)
  have ulp: "2 powr (of_int e - 52) = 1 / (2::real) ^ n"
    using e0 powr_real_of_int [of "2::real" "e - 52"] by (simp add: n_def field_simps)
  have b: "binary64 y = of_int r / 2 ^ n"
    using pos by (simp add: binary64_def Let_def e_def [symmetric] ulp r_def)
  have "0 \<le> r" unfolding r_def using pos by (intro round_to_nearest_even_nonneg) simp
  then have 1: "0 \<le> binary64 y" unfolding b by simp
  have "y * 2 ^ n \<le> of_int (2 ^ n)" using assms(2) by (simp add: mult_le_cancel_right1)
  then have "r \<le> 2 ^ n" unfolding r_def by (rule round_to_nearest_even_le)
  then have "of_int r \<le> (2::real) ^ n" by (metis of_int_le_iff of_int_numeral of_int_power)
  then have 2: "binary64 y \<le> 1" unfolding b by (simp add: divide_le_eq_1)
  have "\<bar>of_int r - y * 2 ^ n\<bar> \<le> 1 / 2" unfolding r_def by (rule round_to_nearest_even_error)
  then have "\<bar>of_int r / 2 ^ n - y\<bar> \<le> (1 / 2) / 2 ^ n"
    by (simp add: field_simps abs_le_iff)
  also have "\<dots> \<le> (1 / 2) / 2 ^ 52"
    using n52 by (intro divide_left_mono power_increasing) simp_all
  finally have 3: "\<bar>binary64 y - y\<bar> \<le> 1 / 2 ^ 53" unfolding b by simp
  from 1 2 3 show ?thesis by simp
qed

lemma binary64_below_1:
  assumes "1 \<le> x * 2 ^ j" and "x * 2 ^ j < 2" and "j \<le> 1022"
  shows "binary64 x = of_int (round_to_nearest_even (x * 2 ^ (52 + j))) / 2 ^ (52 + j)"
proof -
  have pos: "0 < x" using assms(1) by (smt (verit) mult_nonpos_nonneg zero_le_power)
  have p: "2 powr (- real j) = 1 / (2::real) ^ j"
    "2 powr (1 - real j) = 2 / (2::real) ^ j"
    "2 powr (- real j - 52) = 1 / (2::real) ^ (52 + j)"
    by (simp_all add: powr_minus powr_diff powr_realpow field_simps power_add)
  have "\<lfloor>log 2 x\<rfloor> = - int j"
    using assms pos by (simp add: floor_log_eq_powr_iff p field_simps)
  moreover have "max (- int j) (- 1022) = - int j"
    using assms(3) by simp
  ultimately show ?thesis
    using pos by (simp add: binary64_def Let_def p)
qed

lemma binary64_from_1:
  assumes "2 ^ j \<le> x" and "x < 2 ^ (j + 1)" and "j \<le> 52"
  shows "binary64 x = of_int (round_to_nearest_even (x * 2 ^ (52 - j))) / 2 ^ (52 - j)"
proof -
  have pos: "0 < x" using assms(1) by (smt (verit) zero_less_power)
  have "(2::real) ^ 52 = 2 ^ (52 - j) * 2 ^ j"
    using assms(3) by (simp add: power_add [symmetric])
  then have p: "2 powr real j = (2::real) ^ j"
    "2 powr (real j + 1) = 2 * (2::real) ^ j"
    "2 powr (real j - 52) = 1 / (2::real) ^ (52 - j)"
    by (simp_all add: powr_add powr_diff powr_realpow field_simps)
  have "\<lfloor>log 2 x\<rfloor> = int j"
    using assms pos by (simp add: floor_log_eq_powr_iff p)
  moreover have "max (int j) (- 1022) = int j"
    by simp
  ultimately show ?thesis
    using pos by (simp add: binary64_def Let_def p)
qed

lemma binary64_10_2: "binary64 10.2 = 5742089524897382 / 2 ^ 49"
  using binary64_from_1 [of 3 "10.2"]
  by (simp add: round_to_nearest_even_def Let_def)

lemma binary64_10_9: "binary64 10.9 = 6136154492292301 / 2 ^ 49"
  using binary64_from_1 [of 3 "10.9"]
  by (simp add: round_to_nearest_even_def Let_def)

lemma binary64_11_4: "binary64 11.4 = 6417629469002957 / 2 ^ 49"
  using binary64_from_1 [of 3 "11.4"]
  by (simp add: round_to_nearest_even_def Let_def)

lemma double_div_10_2: "double_div (5742089524897382 / 2 ^ 49) 100 = 7349874591868649 / 2 ^ 56"
  using binary64_below_1 [of "5742089524897382 / 2 ^ 49 / 100" 4]
  by (simp add: double_div_def round_to_nearest_even_def Let_def)

lemma double_div_10_9: "double_div (6136154492292301 / 2 ^ 49) 100 = 7854277750134145 / 2 ^ 56"
  using binary64_below_1 [of "6136154492292301 / 2 ^ 49 / 100" 4]
  by (simp add: double_div_def round_to_nearest_even_def Let_def)

lemma double_div_11_4: "double_div (6417629469002957 / 2 ^ 49) 100 = 8214565720323785 / 2 ^ 56"
  using binary64_below_1 [of "6417629469002957 / 2 ^ 49 / 100" 4]
  by (simp add: double_div_def round_to_nearest_even_def Let_def)

lemma double_div_1_100: "double_div 1 100 = 5764607523034235 / 2 ^ 59"
  using binary64_below_1 [of "1 / 100" 7]
  by (simp add: double_div_def round_to_nearest_even_def Let_def)

text \<open>
  C5, as amended. \<^verbatim>\<open>OnMergePercentageUpdate\<close>, when the snapshot manager reports a
  percentage \<open>p\<close> in \<open>[0, 100]\<close>: it reads the percentage, hands the double quotient of \<open>p\<close>
  by 100 to the delegate if there is one (the double nearest to \<open>p / 100\<close>, which lies in
  \<open>[0, 1]\<close> and within \<open>2 ^ - 53\<close> of \<open>p / 100\<close>), logs the integer part of \<open>p\<close> exactly if
  that is greater than \<open>last_percentage\<close> (which it then becomes), and returns false. The
  witness runs the callback three times, on the doubles nearest to 10.2, 10.9 and 11.4,
  from \<open>last_percentage = 10\<close>: the only log line is the one of the third call.
\<close>

theorem progress_callback_rounds_and_logs_increase:
  assumes "p = returns_double sv (trace m @ [snapshot_GetUpdateState])"
    and "0 \<le> p" and "p \<le> 100"
  shows "fst (OnMergePercentageUpdate sv m) = False \<and>
         trace (snd (OnMergePercentageUpdate sv m)) =
           trace m @ [snapshot_GetUpdateState] @
           (if delegate m then [delegate_OnCleanupProgressUpdate (binary64 (p / 100))] else []) @
           (if last_percentage m < nat \<lfloor>p\<rfloor>
            then [LOG_Waiting_for_merge_to_complete (nat \<lfloor>p\<rfloor>)] else []) \<and>
         last_percentage (snd (OnMergePercentageUpdate sv m)) = max (last_percentage m) (nat \<lfloor>p\<rfloor>) \<and>
         delegate (snd (OnMergePercentageUpdate sv m)) = delegate m \<and>
         0 \<le> binary64 (p / 100) \<and> binary64 (p / 100) \<le> 1 \<and>
         \<bar>binary64 (p / 100) - p / 100\<bar> \<le> 1 / 2 ^ 53"
proof -
  have "0 \<le> p / 100" "p / 100 \<le> 1"
    using assms(2,3) by simp_all
  from binary64_unit_interval [OF this] show ?thesis
    using assms(1)
    by (simp add: OnMergePercentageUpdate_def ask_simps Let_def static_cast_unsigned_int_def
          max_def double_div_def)
qed

theorem progress_callback_rounds_and_logs_increase_witness:
  "fst (OnMergePercentageUpdate (reports_progress [binary64 10.2, binary64 10.9, binary64 11.4])
          (started\<lparr>last_percentage := 10\<rparr>)) = False \<and>
   progress_logged (trace (snd (OnMergePercentageUpdate
     (reports_progress [binary64 10.2, binary64 10.9, binary64 11.4])
     (started\<lparr>last_percentage := 10\<rparr>)))) = [] \<and>
   fst (OnMergePercentageUpdate (reports_progress [binary64 10.2, binary64 10.9, binary64 11.4])
     (snd (OnMergePercentageUpdate (reports_progress [binary64 10.2, binary64 10.9, binary64 11.4])
     (started\<lparr>last_percentage := 10\<rparr>)))) = False \<and>
   progress_logged (trace (snd (OnMergePercentageUpdate
     (reports_progress [binary64 10.2, binary64 10.9, binary64 11.4])
     (snd (OnMergePercentageUpdate (reports_progress [binary64 10.2, binary64 10.9, binary64 11.4])
     (started\<lparr>last_percentage := 10\<rparr>)))))) = [] \<and>
   fst (OnMergePercentageUpdate (reports_progress [binary64 10.2, binary64 10.9, binary64 11.4])
     (snd (OnMergePercentageUpdate (reports_progress [binary64 10.2, binary64 10.9, binary64 11.4])
     (snd (OnMergePercentageUpdate (reports_progress [binary64 10.2, binary64 10.9, binary64 11.4])
     (started\<lparr>last_percentage := 10\<rparr>)))))) = False \<and>
   progress_logged (trace (snd (OnMergePercentageUpdate
     (reports_progress [binary64 10.2, binary64 10.9, binary64 11.4])
     (snd (OnMergePercentageUpdate (reports_progress [binary64 10.2, binary64 10.9, binary64 11.4])
     (snd (OnMergePercentageUpdate (reports_progress [binary64 10.2, binary64 10.9, binary64 11.4])
     (started\<lparr>last_percentage := 10\<rparr>)))))))) = [11] \<and>
   progress_delivered (trace (snd (OnMergePercentageUpdate
     (reports_progress [binary64 10.2, binary64 10.9, binary64 11.4])
     (snd (OnMergePercentageUpdate (reports_progress [binary64 10.2, binary64 10.9, binary64 11.4])
     (snd (OnMergePercentageUpdate (reports_progress [binary64 10.2, binary64 10.9, binary64 11.4])
     (started\<lparr>last_percentage := 10\<rparr>)))))))) =
     [7349874591868649 / 2 ^ 56, 7854277750134145 / 2 ^ 56, 8214565720323785 / 2 ^ 56]"
proof -
  let ?a = "5742089524897382 / 2 ^ 49 :: real"
  let ?b = "6136154492292301 / 2 ^ 49 :: real"
  let ?c = "6417629469002957 / 2 ^ 49 :: real"
  let ?sv = "reports_progress [?a, ?b, ?c]"
  let ?m0 = "started\<lparr>last_percentage := 10\<rparr>"
  let ?m1 = "snd (OnMergePercentageUpdate ?sv ?m0)"
  let ?m2 = "snd (OnMergePercentageUpdate ?sv ?m1)"
  let ?m3 = "snd (OnMergePercentageUpdate ?sv ?m2)"
  have d: "returns_double ?sv =
      (\<lambda>h. [?a, ?b, ?c] ! (length (filter (\<lambda>e. e = snapshot_GetUpdateState) h) - 1))"
    by (simp add: reports_progress_def)
  have q: "binary64 (?a / 100) = 7349874591868649 / 2 ^ 56"
    "binary64 (?b / 100) = 7854277750134145 / 2 ^ 56"
    "binary64 (?c / 100) = 8214565720323785 / 2 ^ 56"
    using double_div_10_2 double_div_10_9 double_div_11_4 by (simp_all only: double_div_def)
  have t0: "trace ?m0 = [boot_control_VirtualAbFeatureFlag_IsEnabled,
      snapshot_GetSnapshotMergeStatsInstance]" "delegate ?m0" "last_percentage ?m0 = 10"
    by (simp_all add: started_def CleanupPreviousUpdateAction_def)
  have p1: "?a = returns_double ?sv (trace ?m0 @ [snapshot_GetUpdateState])"
    unfolding d t0 by simp
  note s1 = progress_callback_rounds_and_logs_increase [OF p1, unfolded q]
  have t1: "trace ?m1 = [boot_control_VirtualAbFeatureFlag_IsEnabled,
      snapshot_GetSnapshotMergeStatsInstance, snapshot_GetUpdateState,
      delegate_OnCleanupProgressUpdate (7349874591868649 / 2 ^ 56)]"
      "delegate ?m1" "last_percentage ?m1 = 10"
      "fst (OnMergePercentageUpdate ?sv ?m0) = False"
    using s1 t0 by simp_all
  have p2: "?b = returns_double ?sv (trace ?m1 @ [snapshot_GetUpdateState])"
    unfolding d t1 by simp
  note s2 = progress_callback_rounds_and_logs_increase [OF p2, unfolded q]
  have t2: "trace ?m2 = [boot_control_VirtualAbFeatureFlag_IsEnabled,
      snapshot_GetSnapshotMergeStatsInstance, snapshot_GetUpdateState,
      delegate_OnCleanupProgressUpdate (7349874591868649 / 2 ^ 56), snapshot_GetUpdateState,
      delegate_OnCleanupProgressUpdate (7854277750134145 / 2 ^ 56)]"
      "delegate ?m2" "last_percentage ?m2 = 10"
      "fst (OnMergePercentageUpdate ?sv ?m1) = False"
    using s2 t1 by simp_all
  have p3: "?c = returns_double ?sv (trace ?m2 @ [snapshot_GetUpdateState])"
    unfolding d t2 by simp
  note s3 = progress_callback_rounds_and_logs_increase [OF p3, unfolded q]
  have t3: "trace ?m3 = [boot_control_VirtualAbFeatureFlag_IsEnabled,
      snapshot_GetSnapshotMergeStatsInstance, snapshot_GetUpdateState,
      delegate_OnCleanupProgressUpdate (7349874591868649 / 2 ^ 56), snapshot_GetUpdateState,
      delegate_OnCleanupProgressUpdate (7854277750134145 / 2 ^ 56), snapshot_GetUpdateState,
      delegate_OnCleanupProgressUpdate (8214565720323785 / 2 ^ 56),
      LOG_Waiting_for_merge_to_complete 11]"
      "fst (OnMergePercentageUpdate ?sv ?m2) = False"
    using s3 t2 by simp_all
  show ?thesis
    unfolding binary64_10_2 binary64_10_9 binary64_11_4 t1 t2 t3 by simp
qed

text \<open>
  C5 as stated fails where it says that the delegate receives exactly \<open>p / 100\<close>: for the
  percentage 1 the delegate receives the double nearest to one hundredth, which is not one
  hundredth.
\<close>

theorem progress_callback_exact_fraction_counterexample:
  "progress_delivered (trace (snd (OnMergePercentageUpdate (reports_progress [1]) started))) =
     [5764607523034235 / 2 ^ 59] \<and>
   (5764607523034235 / 2 ^ 59 :: real) \<noteq> 1 / 100"
  by (simp add: OnMergePercentageUpdate_def ask_simps Let_def static_cast_unsigned_int_def
        reports_progress_def started_def CleanupPreviousUpdateAction_def double_div_1_100)

subsection \<open>The failure code on entry\<close>

lemma WaitForMergeOrSchedule_evolves_from_report:
  assumes "running m" and W: "WaitForMergeOrSchedule sv (Suc n) m = Some r"
  shows "evolves (snd (reported sv m)) (final r)"
proof -
  let ?st = "fst (reported sv m)"
  let ?m0 = "snd (reported sv m)"
  let ?m1 = "emit (merge_stats_set_state ?st) ?m0"
  have e1: "evolves ?m0 ?m1"
    by (simp add: evolves_then)
  show ?thesis
  proof (cases "?st = Unverified")
    case True
    with W \<open>running m\<close> have "InitiateMergeAndWait sv n ?m1 = Some r"
      by (simp add: WaitForMergeOrSchedule_running Let_def)
    from evolves_trans [OF e1 InitiateMergeAndWait_evolves [OF this]] show ?thesis .
  next
    case False
    with W \<open>running m\<close> show ?thesis
      by (cases ?st)
         (auto simp: WaitForMergeOrSchedule_running Let_def ask_bool_def ask_Slot_def
            ask_MergeFailureCode_def evolves_then)
  qed
qed








subsection \<open>Initiating the merge\<close>

text \<open>
  C9. \<^verbatim>\<open>InitiateMergeAndWait\<close>, running and with no DSU image active, when
  \<^verbatim>\<open>InitiateMerge\<close> fails: it reads the update state again and records it in the statistics
  recorder. If the state is still \<^verbatim>\<open>Unverified\<close> the action completes with \<^verbatim>\<open>kSuccess\<close>;
  for every other state the function continues as \<^verbatim>\<open>WaitForMergeOrSchedule\<close> does from
  there, still running and with nothing completed on the way.
\<close>

theorem failed_InitiateMerge_rereads_state:
  assumes "running m"
    and "\<not> returns_bool sv (trace m @ [GetBoolProperty ''ro.gsid.image_running'' False])"
    and "\<not> returns_bool sv (trace (at_InitiateMerge sv m) @ [snapshot_InitiateMerge])"
    and "state = returns_UpdateState sv
                   (trace (at_InitiateMerge sv m) @ [snapshot_InitiateMerge, snapshot_GetUpdateState])"
    and "m' = emit (merge_stats_set_state state)
                (emit snapshot_GetUpdateState (emit snapshot_InitiateMerge (at_InitiateMerge sv m)))"
  shows "InitiateMergeAndWait sv n m =
           (if state = Unverified then Some (Inr (ActionComplete sv kSuccess m'))
            else WaitForMergeOrSchedule sv n m') \<and>
         completions (trace (ActionComplete sv kSuccess m')) = completions (trace m) @ [kSuccess] \<and>
         completions (trace m') = completions (trace m) \<and>
         running m'"
  using assms
  by (simp add: InitiateMergeAndWait_running ask_simps Let_def at_InitiateMerge_frame
        ActionComplete_readers readers_append)

theorem failed_InitiateMerge_rereads_state_witness:
  "InitiateMergeAndWait (constant_env False False Unverified) 0 started =
     Some (Inr (ActionComplete (constant_env False False Unverified) kSuccess
       (emit (merge_stats_set_state Unverified)
          (emit snapshot_GetUpdateState (emit snapshot_InitiateMerge
             (at_InitiateMerge (constant_env False False Unverified) started)))))) \<and>
   InitiateMergeAndWait (constant_env False False MergeNeedsReboot) (Suc 0) started =
     WaitForMergeOrSchedule (constant_env False False MergeNeedsReboot) (Suc 0)
       (emit (merge_stats_set_state MergeNeedsReboot)
          (emit snapshot_GetUpdateState (emit snapshot_InitiateMerge
             (at_InitiateMerge (constant_env False False MergeNeedsReboot) started)))) \<and>
   completions (trace (final (the
     (InitiateMergeAndWait (constant_env False False Unverified) 0 started)))) = [kSuccess]"
proof -
  have r: "running started" and c: "completions (trace started) = []"
    by (simp_all add: started_def CleanupPreviousUpdateAction_def)
  have b: "\<not> returns_bool (constant_env False False st) h"
    "returns_UpdateState (constant_env False False st) h = st" for st h
    by (simp_all add: constant_env_def)
  show ?thesis
    using failed_InitiateMerge_rereads_state [OF r b(1) b(1) refl refl, of Unverified 0]
      failed_InitiateMerge_rereads_state [OF r b(1) b(1) refl refl, of MergeNeedsReboot "Suc 0"]
      c
    by (simp add: b(2))
qed

subsection \<open>Whole runs are evolutions\<close>














subsection \<open>A cancelled merge\<close>




subsection \<open>Callbacks that fire on a stopped instance\<close>

text \<open>
  Three of the four callbacks test \<open>running\<close> first and return at once on a stopped
  instance.
\<close>

lemma stopped_callback_returns:
  assumes "\<not> running m" and "t \<noteq> Task_StartMerge"
  shows "callback sv (Suc n) t m = Some (Inr m)"
  using assms
  by (cases t)
     (simp_all add: WaitBootCompletedOrSchedule_def CheckSlotMarkedSuccessfulOrSchedule_def
        WaitForMergeOrSchedule.simps AcknowledgeTaskExecuted_def)

text \<open>
  C2. The fourth does not. \<^verbatim>\<open>PerformAction\<close> posts the delayed \<^verbatim>\<open>StartMerge\<close>,
  \<^verbatim>\<open>SuspendAction\<close> stops the action but the task cannot be cancelled, and the task fires.
  On this stopped instance the other three callbacks change nothing and call nothing,
  while \<^verbatim>\<open>StartMerge\<close> mounts the metadata volume, keeps the device, and starts the
  statistics recorder, before \<^verbatim>\<open>WaitForMergeOrSchedule\<close> finds the action stopped.
\<close>

theorem delayed_StartMerge_ignores_running:
  "run cancel_fails_env (Suc 0) [Calls_PerformAction, Calls_SuspendAction]
     (CleanupPreviousUpdateAction True True True False) = Some (Inr suspended) \<and>
   \<not> running suspended \<and>
   perform cancel_fails_env (Suc 0) (Fires Task_WaitBootCompletedOrSchedule) suspended =
     Some (Inr suspended) \<and>
   perform cancel_fails_env (Suc 0) (Fires Task_CheckSlotMarkedSuccessfulOrSchedule) suspended =
     Some (Inr suspended) \<and>
   perform cancel_fails_env (Suc 0) (Fires Task_WaitForMergeOrSchedule) suspended =
     Some (Inr suspended) \<and>
   perform cancel_fails_env (Suc 0) (Fires Task_StartMerge) suspended =
     Some (Inr (suspended\<lparr>metadata_device := True,
                          trace := trace suspended @
                            [snapshot_EnsureMetadataMounted, merge_stats_Start]\<rparr>))"
proof -
  have b: "returns_bool cancel_fails_env = (\<lambda>h. last h \<noteq> scheduled_task_Cancel)"
    "returns_int cancel_fails_env = (\<lambda>h. 0)" "returns_Slot cancel_fails_env = (\<lambda>h. 0)"
    "\<not> kIsRecovery cancel_fails_env"
    by (simp_all add: cancel_fails_env_def constant_env_def)
  have 1: "run cancel_fails_env (Suc 0) [Calls_PerformAction, Calls_SuspendAction]
             (CleanupPreviousUpdateAction True True True False) = Some (Inr suspended)"
    by (simp add: PerformAction_def StartActionInternal_def WaitBootCompletedOrSchedule_def
          CheckSlotMarkedSuccessfulOrSchedule_def CheckForMergeDelay_def clamp_def
          kMaxMergeDelaySeconds_def SuspendAction_def StopActionInternal_def IsScheduled_def
          Cancel_def PostTask_def AcknowledgeTaskExecuted_def
          CleanupPreviousUpdateAction_def suspended_def ask_simps emit_def Let_def b)
  have 2: "\<not> running suspended" "scheduled_task suspended = None"
    "\<not> metadata_device suspended"
    by (simp_all add: suspended_def)
  have 3: "ExecuteTask suspended = suspended"
    by (simp add: ExecuteTask_def suspended_def)
  have 4: "perform cancel_fails_env (Suc 0) (Fires t) suspended = Some (Inr suspended)"
    if "t \<noteq> Task_StartMerge" for t
    using stopped_callback_returns [OF 2(1) that] by (simp add: 3)
  have 5: "perform cancel_fails_env (Suc 0) (Fires Task_StartMerge) suspended =
     Some (Inr (suspended\<lparr>metadata_device := True,
                          trace := trace suspended @
                            [snapshot_EnsureMetadataMounted, merge_stats_Start]\<rparr>))"
    using 2 by (simp add: 3 StartMerge_def WaitForMergeOrSchedule.simps
          AcknowledgeTaskExecuted_def ask_simps emit_def Let_def b)
  have 6: "perform cancel_fails_env (Suc 0) (Fires Task_WaitBootCompletedOrSchedule) suspended =
       Some (Inr suspended)"
    "perform cancel_fails_env (Suc 0) (Fires Task_CheckSlotMarkedSuccessfulOrSchedule) suspended =
       Some (Inr suspended)"
    "perform cancel_fails_env (Suc 0) (Fires Task_WaitForMergeOrSchedule) suspended =
       Some (Inr suspended)"
    by (rule 4, simp)+
  from 1 2(1) 6 5 show ?thesis
    by (intro conjI)
qed

subsection \<open>The two polls\<close>

lemma ReportMergeStats_tail:
  "\<exists>tail. trace (ReportMergeStats sv m) = trace m @ merge_stats_Finish # tail \<and>
     completions tail = [] \<and> posts tail = [] \<and>
     snapshot_IsSnapshotManagerNeeded \<notin> set tail \<and>
     snapshot_EnsureMetadataMounted \<notin> set tail \<and> merge_stats_Start \<notin> set tail"
  by (auto simp: ReportMergeStats_def ask_simps Let_def split: option.splits)

lemma ActionComplete_tail:
  "\<exists>tail. trace (ActionComplete sv c m) = trace m @ processor_ActionComplete c # tail \<and>
     completions tail = [] \<and> posts tail = [] \<and>
     snapshot_IsSnapshotManagerNeeded \<notin> set tail \<and>
     snapshot_EnsureMetadataMounted \<notin> set tail \<and> merge_stats_Start \<notin> set tail"
proof -
  let ?m1 = "emit (processor_ActionComplete c) m"
  let ?m2 = "StopActionInternal sv ?m1"
  obtain tail where t: "trace (ReportMergeStats sv ?m2) = trace ?m2 @ merge_stats_Finish # tail"
    "completions tail = []" "posts tail = []"
    "snapshot_IsSnapshotManagerNeeded \<notin> set tail"
    "snapshot_EnsureMetadataMounted \<notin> set tail" "merge_stats_Start \<notin> set tail"
    using ReportMergeStats_tail [of sv ?m2] by blast
  have "trace (ActionComplete sv c m) = trace (ReportMergeStats sv ?m2)"
    by (simp add: ActionComplete_def ActionCompleted_def Let_def)
  then show ?thesis using t
    by (cases "scheduled_task m") (simp_all add: StopActionInternal_trace)
qed

lemma reschedule:
  assumes "running m"
    and "m' = (let (posted, m) = PostTask sv t d m in
               if \<not> posted then CheckTaskScheduled sv name m else m)"
  shows "\<exists>ext. trace m' = trace m @ scheduled_task_PostTask t d # ext \<and>
           posts ext = [] \<and> snapshot_IsSnapshotManagerNeeded \<notin> set ext \<and>
           snapshot_EnsureMetadataMounted \<notin> set ext \<and> merge_stats_Start \<notin> set ext \<and>
           (returns_bool sv (trace m @ [scheduled_task_PostTask t d]) \<longrightarrow>
              ext = [] \<and> scheduled_task m' = Some t \<and> running m') \<and>
           (\<not> returns_bool sv (trace m @ [scheduled_task_PostTask t d]) \<and>
            scheduled_task m = None \<longrightarrow> completions ext = [kError])"
proof (cases "returns_bool sv (trace m @ [scheduled_task_PostTask t d])")
  case True
  then show ?thesis
    using assms by (simp add: PostTask_def ask_simps Let_def)
next
  case False
  let ?m1 = "emit (scheduled_task_PostTask t d) m"
  show ?thesis
  proof (cases "scheduled_task m")
    case None
    obtain tail where t: "trace (ActionComplete sv kError ?m1) =
        trace ?m1 @ processor_ActionComplete kError # tail"
      "completions tail = []" "posts tail = []"
      "snapshot_IsSnapshotManagerNeeded \<notin> set tail"
      "snapshot_EnsureMetadataMounted \<notin> set tail" "merge_stats_Start \<notin> set tail"
      using ActionComplete_tail [of sv kError ?m1] by blast
    have "m' = ActionComplete sv kError ?m1"
      using assms False None
      by (simp add: PostTask_def ask_simps Let_def CheckTaskScheduled_def IsScheduled_def)
    then show ?thesis
      using t False None by simp
  next
    case (Some a)
    have "m' = ?m1"
      using assms False Some
      by (simp add: PostTask_def ask_simps Let_def CheckTaskScheduled_def IsScheduled_def)
    then show ?thesis
      using False Some by simp
  qed
qed

text \<open>
  C4, as amended. In a normal boot, a running poll whose condition is false (the
  boot-completed property for \<^verbatim>\<open>WaitBootCompletedOrSchedule\<close>, the slot marked successful
  for \<^verbatim>\<open>CheckSlotMarkedSuccessfulOrSchedule\<close>) reads the condition, posts itself once to the
  message loop and returns; it enters neither the merge-delay stage nor the merge stage.
  If the message loop accepts the task, that is all: the handle tracks the new task and
  nothing is completed. If it refuses and no task is tracked, the action completes with
  \<^verbatim>\<open>kError\<close>.
\<close>

theorem failed_poll_reschedules_in_normal_boot:
  assumes "\<not> kIsRecovery sv"
    and "running m"
  shows "(\<not> returns_bool sv (trace m @ [GetBoolProperty kBootCompletedProp False]) \<longrightarrow>
          (\<exists>m' ext.
             WaitBootCompletedOrSchedule sv n m = Some (Inr m') \<and>
             trace m' = trace m @
               GetBoolProperty kBootCompletedProp False #
               scheduled_task_PostTask Task_WaitBootCompletedOrSchedule
                 kCheckBootCompletedInterval # ext \<and>
             posts ext = [] \<and> snapshot_IsSnapshotManagerNeeded \<notin> set ext \<and>
             snapshot_EnsureMetadataMounted \<notin> set ext \<and> merge_stats_Start \<notin> set ext \<and>
             (returns_bool sv
                (trace m @ [GetBoolProperty kBootCompletedProp False,
                            scheduled_task_PostTask Task_WaitBootCompletedOrSchedule
                              kCheckBootCompletedInterval]) \<longrightarrow>
                ext = [] \<and> scheduled_task m' = Some Task_WaitBootCompletedOrSchedule \<and>
                running m') \<and>
             (\<not> returns_bool sv
                (trace m @ [GetBoolProperty kBootCompletedProp False,
                            scheduled_task_PostTask Task_WaitBootCompletedOrSchedule
                              kCheckBootCompletedInterval]) \<and>
              scheduled_task m = None \<longrightarrow> completions ext = [kError]))) \<and>
         (\<not> returns_bool sv
              (trace m @ [boot_control_GetCurrentSlot,
                          boot_control_IsSlotMarkedSuccessful
                            (returns_Slot sv (trace m @ [boot_control_GetCurrentSlot]))]) \<longrightarrow>
          (\<exists>m' ext.
             CheckSlotMarkedSuccessfulOrSchedule sv n m = Some (Inr m') \<and>
             trace m' = trace m @
               boot_control_GetCurrentSlot #
               boot_control_IsSlotMarkedSuccessful
                 (returns_Slot sv (trace m @ [boot_control_GetCurrentSlot])) #
               scheduled_task_PostTask Task_CheckSlotMarkedSuccessfulOrSchedule
                 kCheckSlotMarkedSuccessfulInterval # ext \<and>
             posts ext = [] \<and> snapshot_IsSnapshotManagerNeeded \<notin> set ext \<and>
             snapshot_EnsureMetadataMounted \<notin> set ext \<and> merge_stats_Start \<notin> set ext \<and>
             (returns_bool sv
                (trace m @ [boot_control_GetCurrentSlot,
                            boot_control_IsSlotMarkedSuccessful
                              (returns_Slot sv (trace m @ [boot_control_GetCurrentSlot])),
                            scheduled_task_PostTask Task_CheckSlotMarkedSuccessfulOrSchedule
                              kCheckSlotMarkedSuccessfulInterval]) \<longrightarrow>
                ext = [] \<and> scheduled_task m' = Some Task_CheckSlotMarkedSuccessfulOrSchedule \<and>
                running m') \<and>
             (\<not> returns_bool sv
                (trace m @ [boot_control_GetCurrentSlot,
                            boot_control_IsSlotMarkedSuccessful
                              (returns_Slot sv (trace m @ [boot_control_GetCurrentSlot])),
                            scheduled_task_PostTask Task_CheckSlotMarkedSuccessfulOrSchedule
                              kCheckSlotMarkedSuccessfulInterval]) \<and>
              scheduled_task m = None \<longrightarrow> completions ext = [kError])))"
proof (intro conjI impI)
  assume c: "\<not> returns_bool sv (trace m @ [GetBoolProperty kBootCompletedProp False])"
  let ?m1 = "emit (GetBoolProperty kBootCompletedProp False) m"
  have w: "WaitBootCompletedOrSchedule sv n m = Some (Inr (ScheduleWaitBootCompleted sv ?m1))"
    using assms c
    by (simp add: WaitBootCompletedOrSchedule_def AcknowledgeTaskExecuted_def ask_simps Let_def)
  have r: "running ?m1" using assms by simp
  show "\<exists>m' ext.
             WaitBootCompletedOrSchedule sv n m = Some (Inr m') \<and>
             trace m' = trace m @
               GetBoolProperty kBootCompletedProp False #
               scheduled_task_PostTask Task_WaitBootCompletedOrSchedule
                 kCheckBootCompletedInterval # ext \<and>
             posts ext = [] \<and> snapshot_IsSnapshotManagerNeeded \<notin> set ext \<and>
             snapshot_EnsureMetadataMounted \<notin> set ext \<and> merge_stats_Start \<notin> set ext \<and>
             (returns_bool sv
                (trace m @ [GetBoolProperty kBootCompletedProp False,
                            scheduled_task_PostTask Task_WaitBootCompletedOrSchedule
                              kCheckBootCompletedInterval]) \<longrightarrow>
                ext = [] \<and> scheduled_task m' = Some Task_WaitBootCompletedOrSchedule \<and>
                running m') \<and>
             (\<not> returns_bool sv
                (trace m @ [GetBoolProperty kBootCompletedProp False,
                            scheduled_task_PostTask Task_WaitBootCompletedOrSchedule
                              kCheckBootCompletedInterval]) \<and>
              scheduled_task m = None \<longrightarrow> completions ext = [kError])"
    using reschedule [OF r, of "ScheduleWaitBootCompleted sv ?m1" sv
        Task_WaitBootCompletedOrSchedule kCheckBootCompletedInterval "''WaitBootCompleted''"] r
    unfolding w by (simp add: ScheduleWaitBootCompleted_def)
next
  let ?slot = "returns_Slot sv (trace m @ [boot_control_GetCurrentSlot])"
  assume c: "\<not> returns_bool sv (trace m @ [boot_control_GetCurrentSlot,
                                           boot_control_IsSlotMarkedSuccessful ?slot])"
  let ?m1 = "emit (boot_control_IsSlotMarkedSuccessful ?slot) (emit boot_control_GetCurrentSlot m)"
  have w: "CheckSlotMarkedSuccessfulOrSchedule sv n m =
             Some (Inr (ScheduleWaitMarkBootSuccessful sv ?m1))"
    using assms c
    by (simp add: CheckSlotMarkedSuccessfulOrSchedule_def AcknowledgeTaskExecuted_def ask_simps
          Let_def)
  have r: "running ?m1" using assms by simp
  show "\<exists>m' ext.
             CheckSlotMarkedSuccessfulOrSchedule sv n m = Some (Inr m') \<and>
             trace m' = trace m @
               boot_control_GetCurrentSlot #
               boot_control_IsSlotMarkedSuccessful ?slot #
               scheduled_task_PostTask Task_CheckSlotMarkedSuccessfulOrSchedule
                 kCheckSlotMarkedSuccessfulInterval # ext \<and>
             posts ext = [] \<and> snapshot_IsSnapshotManagerNeeded \<notin> set ext \<and>
             snapshot_EnsureMetadataMounted \<notin> set ext \<and> merge_stats_Start \<notin> set ext \<and>
             (returns_bool sv
                (trace m @ [boot_control_GetCurrentSlot,
                            boot_control_IsSlotMarkedSuccessful ?slot,
                            scheduled_task_PostTask Task_CheckSlotMarkedSuccessfulOrSchedule
                              kCheckSlotMarkedSuccessfulInterval]) \<longrightarrow>
                ext = [] \<and> scheduled_task m' = Some Task_CheckSlotMarkedSuccessfulOrSchedule \<and>
                running m') \<and>
             (\<not> returns_bool sv
                (trace m @ [boot_control_GetCurrentSlot,
                            boot_control_IsSlotMarkedSuccessful ?slot,
                            scheduled_task_PostTask Task_CheckSlotMarkedSuccessfulOrSchedule
                              kCheckSlotMarkedSuccessfulInterval]) \<and>
              scheduled_task m = None \<longrightarrow> completions ext = [kError])"
    using reschedule [OF r, of "ScheduleWaitMarkBootSuccessful sv ?m1" sv
        Task_CheckSlotMarkedSuccessfulOrSchedule kCheckSlotMarkedSuccessfulInterval
        "''WaitMarkBootSuccessful''"] r
    unfolding w by (simp add: ScheduleWaitMarkBootSuccessful_def)
qed


theorem failed_poll_reschedules_in_normal_boot_witness:
  "\<not> kIsRecovery cancel_env \<and> running started \<and>
   \<not> returns_bool cancel_env (trace started @ [GetBoolProperty kBootCompletedProp False]) \<and>
   trace (final (the (WaitBootCompletedOrSchedule cancel_env 0 started))) =
     trace started @
     [GetBoolProperty kBootCompletedProp False,
      scheduled_task_PostTask Task_WaitBootCompletedOrSchedule kCheckBootCompletedInterval] \<and>
   scheduled_task (final (the (WaitBootCompletedOrSchedule cancel_env 0 started))) =
     Some Task_WaitBootCompletedOrSchedule \<and>
   \<not> returns_bool cancel_env
       (trace started @ [boot_control_GetCurrentSlot, boot_control_IsSlotMarkedSuccessful 0]) \<and>
   trace (final (the (CheckSlotMarkedSuccessfulOrSchedule cancel_env 0 started))) =
     trace started @
     [boot_control_GetCurrentSlot, boot_control_IsSlotMarkedSuccessful 0,
      scheduled_task_PostTask Task_CheckSlotMarkedSuccessfulOrSchedule
        kCheckSlotMarkedSuccessfulInterval] \<and>
   scheduled_task (final (the (CheckSlotMarkedSuccessfulOrSchedule cancel_env 0 started))) =
     Some Task_CheckSlotMarkedSuccessfulOrSchedule"
proof -
  have b: "returns_bool cancel_env = accepts" "returns_Slot cancel_env = (\<lambda>h. 0)"
    by (simp_all add: cancel_env_def constant_env_def)
  have k: "\<not> kIsRecovery cancel_env"
    by (simp add: cancel_env_def constant_env_def)
  have r: "running started"
    by (simp add: started_def)
  have a: "\<not> accepts (h @ [GetBoolProperty kBootCompletedProp False])"
    "\<not> accepts (h @ [boot_control_GetCurrentSlot, boot_control_IsSlotMarkedSuccessful 0])"
    "accepts (h @ [e, scheduled_task_PostTask t d])"
    "accepts (h @ [e, e', scheduled_task_PostTask t d])" for h e e' t d
    by (simp_all add: accepts_def)
  show ?thesis
    using failed_poll_reschedules_in_normal_boot [OF k r, of 0] k r
    by (auto simp: b a)
qed

text \<open>
  C4 as stated fails twice. In a normal boot, when the message loop refuses the task, a
  failed poll schedules nothing and completes with \<^verbatim>\<open>kError\<close>. In recovery the property is
  not consulted: with the boot-completed property false the handler goes on, here as far
  as mounting the metadata volume.
\<close>

theorem failed_poll_counterexample:
  "running started \<and>
   \<not> kIsRecovery (constant_env False False Merging) \<and>
   \<not> returns_bool (constant_env False False Merging)
       (trace started @ [GetBoolProperty kBootCompletedProp False]) \<and>
   completions (trace (final (the
     (WaitBootCompletedOrSchedule (constant_env False False Merging) 0 started)))) = [kError] \<and>
   scheduled_task (final (the
     (WaitBootCompletedOrSchedule (constant_env False False Merging) 0 started))) = None \<and>
   kIsRecovery (constant_env True False Merging) \<and>
   \<not> returns_bool (constant_env True False Merging)
       (trace started @ [GetBoolProperty kBootCompletedProp False]) \<and>
   snapshot_EnsureMetadataMounted \<in> set (trace (final (the
     (WaitBootCompletedOrSchedule (constant_env True False Merging) 0 started)))) \<and>
   posts (trace (final (the
     (WaitBootCompletedOrSchedule (constant_env True False Merging) 0 started)))) = []"
  by (simp add: WaitBootCompletedOrSchedule_def ScheduleWaitBootCompleted_def PostTask_def
        CheckTaskScheduled_def IsScheduled_def ActionComplete_def ActionCompleted_def
        StopActionInternal_def ReportMergeStats_def Cancel_def
        CheckSlotMarkedSuccessfulOrSchedule_def CheckForMergeDelay_def StartMerge_def
        AcknowledgeTaskExecuted_def constant_env_def started_def
        CleanupPreviousUpdateAction_def ask_simps emit_def Let_def)

end
